theory Spec2Isabelle
  imports Complex_Main "HOL-Library.Word"
begin

section \<open>JavaScript values used by the sources\<close>

text \<open>
  A JavaScript string is a sequence of UTF-16 code units; \<open>length\<close> counts code units.
  String literals of the sources are ASCII and are written \<open>js ''...''\<close>.
\<close>

type_synonym code_unit = "16 word"
type_synonym jsstring = "code_unit list"

definition js :: "string \<Rightarrow> jsstring" where
  "js s = map (\<lambda>c. of_nat (of_char c)) s"

text \<open>
  \<open>String.prototype.substring(start, end)\<close> for non-negative integer arguments: both
  indices are clamped to the length and swapped when \<open>start > end\<close>.
  \<open>substring_from\<close> is the one-argument call \<open>s.substring(start)\<close>.
\<close>

definition substring :: "jsstring \<Rightarrow> nat \<Rightarrow> nat \<Rightarrow> jsstring" where
  "substring s start end =
     (let a = min start (length s); b = min end (length s);
          from = min a b; to = max a b
      in take (to - from) (drop from s))"

definition substring_from :: "jsstring \<Rightarrow> nat \<Rightarrow> jsstring" where
  "substring_from s start = drop (min start (length s)) s"

text \<open>A thrown \<open>Error\<close> object, identified by its message.\<close>

datatype js_error = Error string

section \<open>gs1-parser-test.js: convertGTINtoNDC\<close>

text \<open>
  \<^verbatim>\<open>
  function convertGTINtoNDC(gtin) {
    if (!gtin || gtin.length !== 14) {
      throw new Error('Invalid GTIN format. Expected 14 digits.');
    }
    const withoutPrefix = gtin.substring(3);
    const labeler = withoutPrefix.substring(0, 5);
    const product = withoutPrefix.substring(5, 9);
    const packageCode = withoutPrefix.substring(9, 11);
    return `${labeler}-${product}-${packageCode}`;
  }
  \<close>
  For a string argument \<open>!gtin\<close> holds exactly for the empty string.
\<close>

definition convertGTINtoNDC :: "jsstring \<Rightarrow> js_error + jsstring" where
  "convertGTINtoNDC gtin =
     (if gtin = [] \<or> length gtin \<noteq> 14
      then Inl (Error ''Invalid GTIN format. Expected 14 digits.'')
      else
        let withoutPrefix = substring_from gtin 3;
            labeler = substring withoutPrefix 0 5;
            product = substring withoutPrefix 5 9;
            packageCode = substring withoutPrefix 9 11
        in Inr (labeler @ js ''-'' @ product @ js ''-'' @ packageCode))"

section \<open>gs1-parser-test.js: formatExpirationDate\<close>

subsection \<open>Numbers and parseInt\<close>

text \<open>
  The numbers that occur are integers or \<open>NaN\<close>. The sign of zero is not observable in
  the sources (\<open>-0 <= 30\<close>, \<open>2000 + -0\<close> and \<open>-0 - 1\<close> behave as for \<open>0\<close>).
\<close>

datatype jsnum = NaN | Num int

definition num_le :: "jsnum \<Rightarrow> jsnum \<Rightarrow> bool" where
  "num_le a b = (case (a, b) of (Num x, Num y) \<Rightarrow> x \<le> y | _ \<Rightarrow> False)"

definition num_add :: "jsnum \<Rightarrow> jsnum \<Rightarrow> jsnum" where
  "num_add a b = (case (a, b) of (Num x, Num y) \<Rightarrow> Num (x + y) | _ \<Rightarrow> NaN)"

definition num_sub :: "jsnum \<Rightarrow> jsnum \<Rightarrow> jsnum" where
  "num_sub a b = (case (a, b) of (Num x, Num y) \<Rightarrow> Num (x - y) | _ \<Rightarrow> NaN)"

text \<open>
  White space and line terminators skipped by \<open>parseInt\<close>: TAB, LF, VT, FF, CR, SP, NBSP,
  U+1680, U+2000..U+200A, U+2028, U+2029, U+202F, U+205F, U+3000, U+FEFF.
\<close>

definition isWhiteSpace :: "code_unit \<Rightarrow> bool" where
  "isWhiteSpace c =
     (c \<in> set [0x09, 0x0A, 0x0B, 0x0C, 0x0D, 0x20, 0xA0, 0x1680, 0x2028, 0x2029,
               0x202F, 0x205F, 0x3000, 0xFEFF]
      \<or> (0x2000 \<le> c \<and> c \<le> 0x200A))"

definition digitValue :: "code_unit \<Rightarrow> nat option" where
  "digitValue c =
     (if 0x30 \<le> c \<and> c \<le> 0x39 then Some (unat c - 0x30)
      else if 0x61 \<le> c \<and> c \<le> 0x7A then Some (unat c - 0x61 + 10)
      else if 0x41 \<le> c \<and> c \<le> 0x5A then Some (unat c - 0x41 + 10)
      else None)"

definition isRadixDigit :: "nat \<Rightarrow> code_unit \<Rightarrow> bool" where
  "isRadixDigit R c = (case digitValue c of Some v \<Rightarrow> v < R | None \<Rightarrow> False)"

definition radixValue :: "nat \<Rightarrow> jsstring \<Rightarrow> nat" where
  "radixValue R Z = foldl (\<lambda>acc c. acc * R + (case digitValue c of Some v \<Rightarrow> v | None \<Rightarrow> 0)) 0 Z"

text \<open>
  \<open>parseInt(string)\<close> without a radix: skip leading white space, read a sign, switch to
  radix 16 after a \<open>0x\<close>/\<open>0X\<close> prefix, read the longest run of digits; no digit gives
  \<open>NaN\<close>. (The result is exact here; a JavaScript number is exact up to \<open>2^53\<close>, and
  formatExpirationDate passes strings of two code units.)
\<close>

definition parseInt :: "jsstring \<Rightarrow> jsnum" where
  "parseInt inputString =
     (let S = dropWhile isWhiteSpace inputString;
          sign = (case S of c # _ \<Rightarrow> (if c = 0x2D then - 1 else 1) | [] \<Rightarrow> (1::int));
          S1 = (case S of c # rest \<Rightarrow> (if c = 0x2B \<or> c = 0x2D then rest else S) | [] \<Rightarrow> S);
          hex = (take 2 S1 = js ''0x'' \<or> take 2 S1 = js ''0X'');
          R = (if hex then 16 else 10);
          S2 = (if hex then drop 2 S1 else S1);
          Z = takeWhile (isRadixDigit R) S2
      in if Z = [] then NaN else Num (sign * int (radixValue R Z)))"

subsection \<open>Date construction and rendering\<close>

text \<open>
  A date value is a time value (milliseconds since 1 January 1970 UTC) or is invalid.
  \<open>new Date(year, monthIndex, day)\<close> takes its arguments as a local time at
  00:00:00 and converts it to UTC; \<open>toLocaleDateString\<close> converts the time value
  back to local time and renders its day. Both conversions depend on the time zone of
  the host, which is a parameter of the model: \<open>zone t isUTC\<close> is ECMA-262's
  \<open>LocalTZA(t, isUTC)\<close>, the offset of local time from UTC in milliseconds at the
  time value \<open>t\<close> (\<open>isUTC\<close> true) or at the local time \<open>t\<close> (\<open>isUTC\<close> false; a
  local time that a transition skipped is read with the offset before the transition).
  The other definitions follow ECMA-262 as well (Day, DayFromYear, DaysInYear, MakeDay,
  TimeClip, YearFromTime, MonthFromTime, DateFromTime); those of the calendar take day
  numbers instead of milliseconds.
\<close>

type_synonym timezone = "int \<Rightarrow> bool \<Rightarrow> int"

datatype jsdate = InvalidDate | TimeValue int

definition msPerDay :: int where
  "msPerDay = 86400000"

definition Day :: "int \<Rightarrow> int" where
  "Day t = t div msPerDay"

definition LocalTime :: "timezone \<Rightarrow> int \<Rightarrow> int" where
  "LocalTime zone t = t + zone t True"

definition UTC :: "timezone \<Rightarrow> int \<Rightarrow> int" where
  "UTC zone t = t - zone t False"

definition TimeClip :: "int \<Rightarrow> jsdate" where
  "TimeClip t = (if 8640000000000000 < abs t then InvalidDate else TimeValue t)"

definition DaysInYear :: "int \<Rightarrow> int" where
  "DaysInYear y =
     (if y mod 4 \<noteq> 0 then 365
      else if y mod 100 \<noteq> 0 then 366
      else if y mod 400 \<noteq> 0 then 365
      else 366)"

definition DayFromYear :: "int \<Rightarrow> int" where
  "DayFromYear y =
     365 * (y - 1970) + (y - 1969) div 4 - (y - 1901) div 100 + (y - 1601) div 400"

text \<open>Day within the year at which month \<open>mn\<close> (0 to 11) starts; \<open>leap\<close> is 0 or 1.\<close>

definition monthStart :: "int \<Rightarrow> int \<Rightarrow> int" where
  "monthStart leap mn =
     (if mn = 0 then 0
      else if mn = 1 then 31
      else if mn = 2 then 59 + leap
      else if mn = 3 then 90 + leap
      else if mn = 4 then 120 + leap
      else if mn = 5 then 151 + leap
      else if mn = 6 then 181 + leap
      else if mn = 7 then 212 + leap
      else if mn = 8 then 243 + leap
      else if mn = 9 then 273 + leap
      else if mn = 10 then 304 + leap
      else 334 + leap)"

definition leapDays :: "int \<Rightarrow> int" where
  "leapDays y = (if DaysInYear y = 366 then 1 else 0)"

definition MakeDay :: "int \<Rightarrow> int \<Rightarrow> int \<Rightarrow> int" where
  "MakeDay year month dt =
     (let ym = year + month div 12;
          mn = month mod 12
      in DayFromYear ym + monthStart (leapDays ym) mn + dt - 1)"

text \<open>
  The constructor maps a year argument of 0 to 99 to 1900 + year, takes the day so made
  at time 00:00:00 as a local time, and stores its UTC time value. An argument that is
  \<open>NaN\<close> gives an invalid date.
\<close>

definition newDate :: "timezone \<Rightarrow> jsnum \<Rightarrow> jsnum \<Rightarrow> jsnum \<Rightarrow> jsdate" where
  "newDate zone year monthIndex day =
     (case (year, monthIndex, day) of
        (Num y, Num m, Num dt) \<Rightarrow>
          TimeClip (UTC zone
            (MakeDay (if 0 \<le> y \<and> y \<le> 99 then 1900 + y else y) m dt * msPerDay))
      | _ \<Rightarrow> InvalidDate)"

text \<open>
  YearFromTime: the largest \<open>y\<close> with \<open>DayFromYear y \<le> t\<close>, searched among the three
  years around the estimate \<open>1970 + 400 t / 146097\<close>.
\<close>

definition YearFromDay :: "int \<Rightarrow> int" where
  "YearFromDay t =
     (let y0 = 1970 + (400 * t) div 146097
      in if DayFromYear (y0 + 1) \<le> t then y0 + 1
         else if DayFromYear y0 \<le> t then y0
         else y0 - 1)"

definition DayWithinYear :: "int \<Rightarrow> int" where
  "DayWithinYear t = t - DayFromYear (YearFromDay t)"

definition InLeapYear :: "int \<Rightarrow> int" where
  "InLeapYear t = leapDays (YearFromDay t)"

definition MonthFromDay :: "int \<Rightarrow> int" where
  "MonthFromDay t =
     (let d = DayWithinYear t; leap = InLeapYear t
      in if d < 31 then 0
         else if d < 59 + leap then 1
         else if d < 90 + leap then 2
         else if d < 120 + leap then 3
         else if d < 151 + leap then 4
         else if d < 181 + leap then 5
         else if d < 212 + leap then 6
         else if d < 243 + leap then 7
         else if d < 273 + leap then 8
         else if d < 304 + leap then 9
         else if d < 334 + leap then 10
         else 11)"

definition DateFromDay :: "int \<Rightarrow> int" where
  "DateFromDay t =
     DayWithinYear t - monthStart (InLeapYear t) (MonthFromDay t) + 1"

definition monthNames :: "string list" where
  "monthNames = [''January'', ''February'', ''March'', ''April'', ''May'', ''June'', ''July'',
                 ''August'', ''September'', ''October'', ''November'', ''December'']"

fun decimal :: "nat \<Rightarrow> string" where
  "decimal n =
     (if n < 10 then [char_of (48 + n)]
      else decimal (n div 10) @ [char_of (48 + n mod 10)])"

declare decimal.simps [simp del]

text \<open>
  \<open>date.toLocaleDateString('en-US', {year: 'numeric', month: 'long', day: 'numeric'})\<close>
  in the time zone of the host, for years of the common era.
\<close>

definition toLocaleDateString :: "timezone \<Rightarrow> jsdate \<Rightarrow> jsstring" where
  "toLocaleDateString zone date =
     (case date of
        InvalidDate \<Rightarrow> js ''Invalid Date''
      | TimeValue t \<Rightarrow>
          (let d = Day (LocalTime zone t)
           in js (monthNames ! nat (MonthFromDay d) @ '' '' @ decimal (nat (DateFromDay d))
                  @ '', '' @ decimal (nat (YearFromDay d)))))"

subsection \<open>formatExpirationDate\<close>

text \<open>
  \<^verbatim>\<open>
  function formatExpirationDate(yymmdd) {
    if (!yymmdd || yymmdd.length !== 6) {
      return yymmdd;
    }
    const year = parseInt(yymmdd.substring(0, 2));
    const month = parseInt(yymmdd.substring(2, 4));
    const day = parseInt(yymmdd.substring(4, 6));
    // Assume years 00-30 are 2000s, 31-99 are 1900s
    const fullYear = year <= 30 ? 2000 + year : 1900 + year;
    const date = new Date(fullYear, month - 1, day);
    return date.toLocaleDateString('en-US', {
      year: 'numeric', month: 'long', day: 'numeric' });
  }
  \<close>
\<close>

definition fullYear :: "jsnum \<Rightarrow> jsnum" where
  "fullYear year = (if num_le year (Num 30) then num_add (Num 2000) year
                    else num_add (Num 1900) year)"

definition formatExpirationDate :: "timezone \<Rightarrow> jsstring \<Rightarrow> jsstring" where
  "formatExpirationDate zone yymmdd =
     (if yymmdd = [] \<or> length yymmdd \<noteq> 6 then yymmdd
      else
        let year = parseInt (substring yymmdd 0 2);
            month = parseInt (substring yymmdd 2 4);
            day = parseInt (substring yymmdd 4 6);
            date = newDate zone (fullYear year) (num_sub month (Num 1)) day
        in toLocaleDateString zone date)"

section \<open>gs1-parser-test.js: parseGS1DataMatrix\<close>

text \<open>
  \<^verbatim>\<open>
  function parseGS1DataMatrix(data) {
    const result = { raw: data };
    try {
      let pos = 0;
      if (data.substring(pos, pos + 2) === '01') {
        pos += 2;
        result.gtin = data.substring(pos, pos + 14);
        result.ndc = convertGTINtoNDC(result.gtin);
        pos += 14;
      }
      if (data.substring(pos, pos + 2) === '17') {
        pos += 2;
        result.expirationDateRaw = data.substring(pos, pos + 6);
        result.expirationDate = formatExpirationDate(result.expirationDateRaw);
        pos += 6;
      }
      if (data.substring(pos, pos + 2) === '10') {
        pos += 2;
        result.lotNumber = data.substring(pos);
      }
    } catch (error) {
      console.error('Error parsing GS1 data:', error);
    }
    return result;
  }
  \<close>
  The result object is a map from property names to string values; a property that was
  never assigned is undefined (\<open>None\<close>). The state of the try block is the object
  together with the cursor \<open>pos\<close>.
\<close>

type_synonym jsobject = "string \<rightharpoonup> jsstring"
type_synonym parse_state = "jsobject \<times> nat"

text \<open>
  First \<open>if\<close>: the only statement of the try block that can throw is the call of
  convertGTINtoNDC; the object then keeps the \<open>gtin\<close> assigned just before.
  \<open>Inl (e, result)\<close> is the exception together with the object at the throw.
\<close>

definition extractGTIN :: "jsstring \<Rightarrow> parse_state \<Rightarrow> (js_error \<times> jsobject) + parse_state" where
  "extractGTIN data st =
     (case st of (result, pos) \<Rightarrow>
        if substring data pos (pos + 2) = js ''01'' then
          let pos1 = pos + 2;
              gtin = substring data pos1 (pos1 + 14);
              result1 = result(''gtin'' \<mapsto> gtin)
          in case convertGTINtoNDC gtin of
               Inl e \<Rightarrow> Inl (e, result1)
             | Inr ndc \<Rightarrow> Inr (result1(''ndc'' \<mapsto> ndc), pos1 + 14)
        else Inr (result, pos))"

definition extractExpiration :: "timezone \<Rightarrow> jsstring \<Rightarrow> parse_state \<Rightarrow> parse_state" where
  "extractExpiration zone data st =
     (case st of (result, pos) \<Rightarrow>
        if substring data pos (pos + 2) = js ''17'' then
          let pos1 = pos + 2;
              expirationDateRaw = substring data pos1 (pos1 + 6);
              result1 = result(''expirationDateRaw'' \<mapsto> expirationDateRaw);
              result2 = result1(''expirationDate'' \<mapsto> formatExpirationDate zone expirationDateRaw)
          in (result2, pos1 + 6)
        else (result, pos))"

definition extractLot :: "jsstring \<Rightarrow> parse_state \<Rightarrow> parse_state" where
  "extractLot data st =
     (case st of (result, pos) \<Rightarrow>
        if substring data pos (pos + 2) = js ''10'' then
          let pos1 = pos + 2
          in (result(''lotNumber'' \<mapsto> substring_from data pos1), pos1)
        else (result, pos))"

text \<open>The try block, started with the object \<open>result\<close> and the cursor 0.\<close>

definition parse_try ::
  "timezone \<Rightarrow> jsstring \<Rightarrow> jsobject \<Rightarrow> (js_error \<times> jsobject) + parse_state" where
  "parse_try zone data result =
     (case extractGTIN data (result, 0) of
        Inl thrown \<Rightarrow> Inl thrown
      | Inr st \<Rightarrow> Inr (extractLot data (extractExpiration zone data st)))"

text \<open>
  How a call completes: it returns a value or throws to its caller. The second
  component of the result of parseGS1DataMatrix is what the catch clause wrote with
  \<open>console.error\<close>. The time zone of the host is passed on to formatExpirationDate.
\<close>

datatype 'a completion = Return 'a | Throw js_error

definition parseGS1DataMatrix ::
  "timezone \<Rightarrow> jsstring \<Rightarrow> jsobject completion \<times> js_error list" where
  "parseGS1DataMatrix zone data =
     (let result = [''raw'' \<mapsto> data]
      in case parse_try zone data result of
           Inl (error, result1) \<Rightarrow> (Return result1, [error])
         | Inr (result1, pos) \<Rightarrow> (Return result1, []))"

section \<open>decode-dm.js: the decode pipeline\<close>

text \<open>
  The script calls three capabilities it does not implement: the sharp filter chain
  ending in \<open>toBuffer()\<close>, \<open>fs.promises.readFile\<close> and \<open>readBarcodes\<close>. Each is
  awaited in turn and either yields a value or rejects with an error. The image file is
  fixed, so the filter chain is a function of the list of filter operations.
  The model is the try statement of the script (lines 14 to 98), which runs once the
  check of the file argument (usage message, exit code 1) has passed.
\<close>

type_synonym buffer = "8 word list"

datatype filter_op =
    Median nat | Linear rat rat | Sharpen | SharpenSigma rat | Threshold nat
  | Rotate nat | Png

record ReaderOptions =
  formats :: "string list"
  tryHarder :: bool
  maxNumberOfSymbols :: nat

text \<open>A result of \<open>readBarcodes\<close>; \<open>text'\<close> is its property \<open>text\<close>.\<close>

record ReadResult =
  text' :: jsstring
  isValid :: bool

record capabilities =
  sharp_toBuffer :: "filter_op list \<Rightarrow> js_error + buffer"
  readFile :: "js_error + buffer"
  readBarcodes :: "buffer \<Rightarrow> ReaderOptions option \<Rightarrow> js_error + ReadResult list"

text \<open>The capability calls a run makes, in order.\<close>

datatype call = SharpCall "filter_op list" | ReadFileCall | ReadBarcodesCall buffer "ReaderOptions option"

definition standardRecipe :: "filter_op list" where
  "standardRecipe = [Median 3, Linear (16 / 10) (- 30), Sharpen, Png]"

definition enhancedRecipe :: "filter_op list" where
  "enhancedRecipe = [Median 5, Linear 2 (- 50), SharpenSigma (15 / 10), Threshold 128, Png]"

definition rotatedRecipe :: "nat \<Rightarrow> filter_op list" where
  "rotatedRecipe angle = [Median 3, Linear (16 / 10) (- 30), Sharpen, Rotate angle, Png]"

definition dmOptions :: ReaderOptions where
  "dmOptions = \<lparr>formats = [''DataMatrix''], tryHarder = True, maxNumberOfSymbols = 10\<rparr>"

text \<open>
  \<open>await sharp(file)...toBuffer()\<close> followed by \<open>await readBarcodes(buffer, {...})\<close>:
  the pair the first three sections of the script repeat. The calls made are appended to
  the trace; \<open>Inl\<close> is the error thrown.
\<close>

definition preprocessAndRead ::
  "capabilities \<Rightarrow> filter_op list \<Rightarrow> call list \<Rightarrow> call list \<times> (js_error + ReadResult list)" where
  "preprocessAndRead env recipe trace =
     (case sharp_toBuffer env recipe of
        Inl e \<Rightarrow> (trace @ [SharpCall recipe], Inl e)
      | Inr buf \<Rightarrow>
          (trace @ [SharpCall recipe, ReadBarcodesCall buf (Some dmOptions)],
           readBarcodes env buf (Some dmOptions)))"

text \<open>
  \<open>fs.promises.readFile(file)\<close> followed by \<open>readBarcodes(originalBuffer)\<close>.
\<close>

definition readOriginal ::
  "capabilities \<Rightarrow> call list \<Rightarrow> call list \<times> (js_error + ReadResult list)" where
  "readOriginal env trace =
     (case readFile env of
        Inl e \<Rightarrow> (trace @ [ReadFileCall], Inl e)
      | Inr originalBuffer \<Rightarrow>
          (trace @ [ReadFileCall, ReadBarcodesCall originalBuffer None],
           readBarcodes env originalBuffer None))"

text \<open>
  Sections 1 and 2 test \<open>results.length > 0 && results[0].isValid\<close> and print
  \<open>results[0].text\<close>; sections 3 and 4 filter the results by \<open>isValid\<close> and print the
  first one left.
\<close>

definition firstIfValid :: "ReadResult list \<Rightarrow> jsstring option" where
  "firstIfValid results =
     (case results of [] \<Rightarrow> None | r # _ \<Rightarrow> if isValid r then Some (text' r) else None)"

definition firstValid :: "ReadResult list \<Rightarrow> jsstring option" where
  "firstValid results =
     (case filter isValid results of [] \<Rightarrow> None | r # _ \<Rightarrow> Some (text' r))"

text \<open>
  How the try block ends: \<open>process.exit(0)\<close> after printing a text, an exception, or
  the \<open>Decode failed\<close> exit at its end. \<open>Fallthrough\<close> is the rotation loop ending
  without a decode.
\<close>

datatype flow = Printed jsstring | Thrown js_error | Fallthrough | DecodeFailed

fun rotationLoop :: "capabilities \<Rightarrow> nat list \<Rightarrow> call list \<Rightarrow> call list \<times> flow" where
  "rotationLoop env [] trace = (trace, Fallthrough)"
| "rotationLoop env (angle # angles) trace =
     (case preprocessAndRead env (rotatedRecipe angle) trace of
        (trace1, Inl e) \<Rightarrow> (trace1, Thrown e)
      | (trace1, Inr rotatedResults) \<Rightarrow>
          (case firstValid rotatedResults of
             Some t \<Rightarrow> (trace1, Printed t)
           | None \<Rightarrow> rotationLoop env angles trace1))"

definition tryBlock :: "capabilities \<Rightarrow> call list \<times> flow" where
  "tryBlock env =
     (case preprocessAndRead env standardRecipe [] of
        (trace1, Inl e) \<Rightarrow> (trace1, Thrown e)
      | (trace1, Inr results) \<Rightarrow>
     (case firstIfValid results of
        Some t \<Rightarrow> (trace1, Printed t)
      | None \<Rightarrow>
     (case preprocessAndRead env enhancedRecipe trace1 of
        (trace2, Inl e) \<Rightarrow> (trace2, Thrown e)
      | (trace2, Inr enhancedResults) \<Rightarrow>
     (case firstIfValid enhancedResults of
        Some t \<Rightarrow> (trace2, Printed t)
      | None \<Rightarrow>
     (case rotationLoop env [90, 180, 270] trace2 of
        (trace3, Fallthrough) \<Rightarrow>
          (case readOriginal env trace3 of
             (trace4, Inl e) \<Rightarrow> (trace4, Thrown e)
           | (trace4, Inr originalResults) \<Rightarrow>
               (case firstValid originalResults of
                  Some t \<Rightarrow> (trace4, Printed t)
                | None \<Rightarrow> (trace4, DecodeFailed)))
      | ended \<Rightarrow> ended)))))"

text \<open>
  What the process leaves behind: the capability calls made, the lines written to
  standard output and standard error, and the exit code. The catch clause prints
  \<open>Processing error:\<close> and the error's message and exits with code 2.
\<close>

record process =
  calls :: "call list"
  stdout :: "jsstring list"
  stderr :: "jsstring list"
  exit_code :: nat

definition decode_dm :: "capabilities \<Rightarrow> process" where
  "decode_dm env =
     (case tryBlock env of
        (trace, Printed t) \<Rightarrow> \<lparr>calls = trace, stdout = [t], stderr = [], exit_code = 0\<rparr>
      | (trace, Thrown (Error message)) \<Rightarrow>
          \<lparr>calls = trace, stdout = [], stderr = [js (''Processing error: '' @ message)],
           exit_code = 2\<rparr>
      | (trace, _) \<Rightarrow>
          \<lparr>calls = trace, stdout = [], stderr = [js ''Decode failed''], exit_code = 2\<rparr>)"

subsection \<open>The strategy list\<close>

text \<open>
  The pipeline as a list of attempts, written out on its own and not through the
  functions of the script above: the attempts in the order the script makes them, each
  with the strategy (1 to 4) it belongs to, the bytes it hands to the decode capability
  (the output of a filter chain, or the bytes of the file as they are), the options it
  passes, and the test that accepts its results. Strategies 1 and 2 accept the first
  result returned, when it is marked valid; strategies 3 and 4 accept the first of the
  results that are marked valid.
\<close>

datatype attempt = Standard | Enhanced | Rotated nat | Original

definition attemptOrder :: "attempt list" where
  "attemptOrder = [Standard, Enhanced, Rotated 90, Rotated 180, Rotated 270, Original]"

fun strategyOf :: "attempt \<Rightarrow> nat" where
  "strategyOf Standard = 1"
| "strategyOf Enhanced = 2"
| "strategyOf (Rotated angle) = 3"
| "strategyOf Original = 4"

fun attemptInput :: "capabilities \<Rightarrow> attempt \<Rightarrow> call \<times> (js_error + buffer)" where
  "attemptInput env Standard =
     (SharpCall [Median 3, Linear (16 / 10) (- 30), Sharpen, Png],
      sharp_toBuffer env [Median 3, Linear (16 / 10) (- 30), Sharpen, Png])"
| "attemptInput env Enhanced =
     (SharpCall [Median 5, Linear 2 (- 50), SharpenSigma (15 / 10), Threshold 128, Png],
      sharp_toBuffer env [Median 5, Linear 2 (- 50), SharpenSigma (15 / 10), Threshold 128, Png])"
| "attemptInput env (Rotated angle) =
     (SharpCall [Median 3, Linear (16 / 10) (- 30), Sharpen, Rotate angle, Png],
      sharp_toBuffer env [Median 3, Linear (16 / 10) (- 30), Sharpen, Rotate angle, Png])"
| "attemptInput env Original = (ReadFileCall, readFile env)"

fun attemptOptions :: "attempt \<Rightarrow> ReaderOptions option" where
  "attemptOptions Original = None"
| "attemptOptions a =
     Some \<lparr>formats = [''DataMatrix''], tryHarder = True, maxNumberOfSymbols = 10\<rparr>"

definition runAttempt ::
  "capabilities \<Rightarrow> attempt \<Rightarrow> call list \<Rightarrow> call list \<times> (js_error + ReadResult list)" where
  "runAttempt env a trace =
     (case attemptInput env a of
        (c, Inl e) \<Rightarrow> (trace @ [c], Inl e)
      | (c, Inr buf) \<Rightarrow>
          (trace @ [c, ReadBarcodesCall buf (attemptOptions a)],
           readBarcodes env buf (attemptOptions a)))"

fun accepted :: "attempt \<Rightarrow> ReadResult list \<Rightarrow> jsstring option" where
  "accepted Standard [] = None"
| "accepted Standard (r # rs) = (if isValid r then Some (text' r) else None)"
| "accepted Enhanced [] = None"
| "accepted Enhanced (r # rs) = (if isValid r then Some (text' r) else None)"
| "accepted (Rotated angle) results = map_option text' (find isValid results)"
| "accepted Original results = map_option text' (find isValid results)"

text \<open>
  The outcome of one attempt on its own: it raises, it returns results none of which is
  accepted, or it yields a valid decode.
\<close>

datatype outcome = Raises js_error | NoResult | Yields jsstring

definition attemptOutcome :: "capabilities \<Rightarrow> attempt \<Rightarrow> outcome" where
  "attemptOutcome env a =
     (case snd (runAttempt env a []) of
        Inl e \<Rightarrow> Raises e
      | Inr results \<Rightarrow> (case accepted a results of None \<Rightarrow> NoResult | Some t \<Rightarrow> Yields t))"

definition attemptCalls :: "capabilities \<Rightarrow> attempt \<Rightarrow> call list" where
  "attemptCalls env a = fst (runAttempt env a [])"

text \<open>The attempts evaluated one after the other, stopping at the first that does not
  end with \<open>NoResult\<close>.\<close>

fun runAttempts :: "capabilities \<Rightarrow> attempt list \<Rightarrow> call list \<Rightarrow> call list \<times> flow" where
  "runAttempts env [] trace = (trace, DecodeFailed)"
| "runAttempts env (a # as) trace =
     (case attemptOutcome env a of
        Raises e \<Rightarrow> (trace @ attemptCalls env a, Thrown e)
      | Yields t \<Rightarrow> (trace @ attemptCalls env a, Printed t)
      | NoResult \<Rightarrow> runAttempts env as (trace @ attemptCalls env a))"

subsection \<open>Example environments\<close>

text \<open>
  Capabilities for seven images. The filter chain answers each recipe with a buffer of
  its own. A clear image decodes at once; a blank image has no symbol; an upside-down
  image decodes after a rotation by 180 degrees (the standard recipe gives an invalid
  result followed by a valid one); for two images the decode engine throws on the
  buffer of the standard recipe, and decodes every other buffer of the first one and
  none of the second; one file cannot be read; one image decodes from its original
  bytes only, read without options, where the valid result comes second.
\<close>

definition bufferOf :: "filter_op list \<Rightarrow> buffer" where
  "bufferOf recipe =
     (if recipe = standardRecipe then [1]
      else if recipe = enhancedRecipe then [2]
      else if recipe = rotatedRecipe 90 then [3]
      else if recipe = rotatedRecipe 180 then [4]
      else if recipe = rotatedRecipe 270 then [5]
      else [])"

definition clearImage :: capabilities where
  "clearImage =
     \<lparr>sharp_toBuffer = (\<lambda>recipe. Inr (bufferOf recipe)),
      readFile = Inr [0],
      readBarcodes = (\<lambda>buf opts. Inr [\<lparr>text' = js ''0100349281589058'', isValid = True\<rparr>])\<rparr>"

definition blankImage :: capabilities where
  "blankImage =
     \<lparr>sharp_toBuffer = (\<lambda>recipe. Inr (bufferOf recipe)),
      readFile = Inr [0],
      readBarcodes = (\<lambda>buf opts. Inr [])\<rparr>"

definition upsideDownImage :: capabilities where
  "upsideDownImage =
     \<lparr>sharp_toBuffer = (\<lambda>recipe. Inr (bufferOf recipe)),
      readFile = Inr [0],
      readBarcodes = (\<lambda>buf opts.
        Inr (if buf = [1] then [\<lparr>text' = js ''A'', isValid = False\<rparr>, \<lparr>text' = js ''B'', isValid = True\<rparr>]
             else if buf = [4] then [\<lparr>text' = js ''X'', isValid = False\<rparr>,
                                     \<lparr>text' = js ''0100349281589058'', isValid = True\<rparr>]
             else []))\<rparr>"

definition engineFailure :: capabilities where
  "engineFailure =
     \<lparr>sharp_toBuffer = (\<lambda>recipe. Inr (bufferOf recipe)),
      readFile = Inr [0],
      readBarcodes = (\<lambda>buf opts.
        if buf = [1] then Inl (Error ''decoder crashed'')
        else Inr [\<lparr>text' = js ''0100349281589058'', isValid = True\<rparr>])\<rparr>"

definition crashThenBlank :: capabilities where
  "crashThenBlank =
     \<lparr>sharp_toBuffer = (\<lambda>recipe. Inr (bufferOf recipe)),
      readFile = Inr [0],
      readBarcodes = (\<lambda>buf opts.
        if buf = [1] then Inl (Error ''decoder crashed'') else Inr [])\<rparr>"

definition unreadableFile :: capabilities where
  "unreadableFile =
     \<lparr>sharp_toBuffer = (\<lambda>recipe. Inr (bufferOf recipe)),
      readFile = Inl (Error ''EACCES: permission denied''),
      readBarcodes = (\<lambda>buf opts. Inr [])\<rparr>"

definition rawOnlyImage :: capabilities where
  "rawOnlyImage =
     \<lparr>sharp_toBuffer = (\<lambda>recipe. Inr (bufferOf recipe)),
      readFile = Inr [0],
      readBarcodes = (\<lambda>buf opts.
        Inr (if buf = [0] \<and> opts = None
             then [\<lparr>text' = js ''X'', isValid = False\<rparr>,
                   \<lparr>text' = js ''0100349281589058'', isValid = True\<rparr>]
             else []))\<rparr>"

text \<open>
  Time zones. A zone with a fixed offset; UTC; and Pacific/Kiritimati, which went from
  10 hours 40 minutes behind UTC to 14 hours ahead at the end of 30 December 1994, so
  that its calendar has no 31 December 1994 (the transition is at the time value
  788870400000, and the local times from 788832000000 up to 788920800000 were skipped).
\<close>

definition fixedOffset :: "int \<Rightarrow> timezone" where
  "fixedOffset offset = (\<lambda>t isUTC. offset)"

definition utcZone :: timezone where
  "utcZone = fixedOffset 0"

definition kiritimati :: timezone where
  "kiritimati =
     (\<lambda>t isUTC. if (if isUTC then t < 788870400000 else t < 788920800000)
                 then - 38400000 else 50400000)"

section \<open>Vocabulary of the properties\<close>

text \<open>
  A decimal digit as a code unit, and the number two decimal digits denote.
\<close>

definition decimalDigit :: "code_unit \<Rightarrow> bool" where
  "decimalDigit c = (0x30 \<le> c \<and> c \<le> 0x39)"

definition twoDigits :: "code_unit \<Rightarrow> code_unit \<Rightarrow> int" where
  "twoDigits c1 c2 = 10 * (int (unat c1) - 48) + (int (unat c2) - 48)"

text \<open>The text convertGTINtoNDC returns for a string of 14 characters.\<close>

definition ndcText :: "jsstring \<Rightarrow> jsstring" where
  "ndcText gtin =
     take 5 (drop 3 gtin) @ js ''-'' @ take 4 (drop 8 gtin) @ js ''-'' @ take 2 (drop 12 gtin)"

text \<open>
  The zone keeps the day \<open>d\<close>: the local midnight of day \<open>d\<close> has a time value,
  and the local day of that time value is \<open>d\<close> again. A zone fails to keep a day only
  where a transition skipped its midnight.
\<close>

definition zoneKeepsDay :: "timezone \<Rightarrow> int \<Rightarrow> bool" where
  "zoneKeepsDay zone d =
     (abs (UTC zone (d * msPerDay)) \<le> 8640000000000000
      \<and> Day (LocalTime zone (UTC zone (d * msPerDay))) = d)"

text \<open>The number of days of month \<open>mn\<close> (0 to 11); \<open>leap\<close> is 0 or 1.\<close>

definition daysInMonth :: "int \<Rightarrow> int \<Rightarrow> int" where
  "daysInMonth leap mn =
     (if mn = 1 then 28 + leap
      else if mn = 3 \<or> mn = 5 \<or> mn = 8 \<or> mn = 10 then 30
      else 31)"

section \<open>Properties of convertGTINtoNDC\<close>

lemma substring_take_drop:
  "a \<le> b \<Longrightarrow> substring s a b = take (b - a) (drop a s)"
  by (auto simp: substring_def Let_def min_def max_def)

lemma length14_elems:
  assumes "length (g :: 'a list) = 14"
  obtains a0 a1 a2 a3 a4 a5 a6 a7 a8 a9 a10 a11 a12 a13
  where "g = [a0, a1, a2, a3, a4, a5, a6, a7, a8, a9, a10, a11, a12, a13]"
proof -
  from assms have "length g = Suc (Suc (Suc (Suc (Suc (Suc (Suc (Suc (Suc (Suc (Suc (Suc (Suc (Suc 0)))))))))))))"
    by simp
  then show ?thesis
    using that by (auto simp: length_Suc_conv)
qed

lemma js_simps: "js [] = []" "js (c # cs) = of_nat (of_char c) # js cs"
  by (simp_all add: js_def)

text \<open>
  Claim C3. For every input whose length is not 14, convertGTINtoNDC fails with the
  invalid-format error. For every input of 14 characters it returns the string made of
  characters 4 to 8, a hyphen, characters 9 to 12, a hyphen, and characters 13 to 14
  (counted from 1) of the input: the input without its first three characters, cut into
  groups of 5, 4 and 2. Being a function of its argument, it is deterministic.
\<close>

theorem convertGTINtoNDC_spec:
  "(length gtin \<noteq> 14 \<longrightarrow>
      convertGTINtoNDC gtin = Inl (Error ''Invalid GTIN format. Expected 14 digits.''))
   \<and> (length gtin = 14 \<longrightarrow>
      convertGTINtoNDC gtin
        = Inr (take 5 (drop 3 gtin) @ js ''-'' @ take 4 (drop 8 gtin) @ js ''-'' @ take 2 (drop 12 gtin))
      \<and> convertGTINtoNDC gtin
        = Inr ([gtin ! 3, gtin ! 4, gtin ! 5, gtin ! 6, gtin ! 7] @ js ''-''
               @ [gtin ! 8, gtin ! 9, gtin ! 10, gtin ! 11] @ js ''-''
               @ [gtin ! 12, gtin ! 13]))"
proof (intro conjI impI)
  assume "length gtin \<noteq> 14"
  then show "convertGTINtoNDC gtin = Inl (Error ''Invalid GTIN format. Expected 14 digits.'')"
    by (simp add: convertGTINtoNDC_def)
next
  assume len: "length gtin = 14"
  then obtain a0 a1 a2 a3 a4 a5 a6 a7 a8 a9 a10 a11 a12 a13
    where g: "gtin = [a0, a1, a2, a3, a4, a5, a6, a7, a8, a9, a10, a11, a12, a13]"
    by (rule length14_elems)
  show "convertGTINtoNDC gtin
        = Inr (take 5 (drop 3 gtin) @ js ''-'' @ take 4 (drop 8 gtin) @ js ''-'' @ take 2 (drop 12 gtin))"
    unfolding g by (simp add: convertGTINtoNDC_def substring_def substring_from_def js_simps)
  show "convertGTINtoNDC gtin
        = Inr ([gtin ! 3, gtin ! 4, gtin ! 5, gtin ! 6, gtin ! 7] @ js ''-''
               @ [gtin ! 8, gtin ! 9, gtin ! 10, gtin ! 11] @ js ''-''
               @ [gtin ! 12, gtin ! 13])"
    unfolding g by (simp add: convertGTINtoNDC_def substring_def substring_from_def js_simps)
qed

theorem convertGTINtoNDC_spec_witness:
  "length (js ''00349281589058'') = 14
   \<and> convertGTINtoNDC (js ''00349281589058'') = Inr (js ''49281-5890-58'')
   \<and> length (js ''12345'') \<noteq> 14
   \<and> convertGTINtoNDC (js ''12345'') = Inl (Error ''Invalid GTIN format. Expected 14 digits.'')"
  using convertGTINtoNDC_spec [of "js ''00349281589058''"] convertGTINtoNDC_spec [of "js ''12345''"]
  by (simp add: js_simps)

section \<open>The calendar\<close>

lemma int_div_bounds:
  fixes x k :: int
  assumes "0 < k"
  shows "k * (x div k) \<le> x" "x < k * (x div k) + k"
proof -
  have e: "x = k * (x div k) + x mod k" by simp
  have m: "0 \<le> x mod k" "x mod k < k" using assms by simp_all
  show "k * (x div k) \<le> x" using e m by linarith
  show "x < k * (x div k) + k" using e m by linarith
qed

lemma DayFromYear_bounds:
  "146097 * y - 287811596 \<le> 400 * DayFromYear y"
  "400 * DayFromYear y \<le> 146097 * y - 287810501"
proof -
  define q4 where "q4 = (y - 1969) div 4"
  define q100 where "q100 = (y - 1901) div 100"
  define q400 where "q400 = (y - 1601) div 400"
  have a: "4 * q4 \<le> y - 1969" "y - 1969 < 4 * q4 + 4"
    unfolding q4_def using int_div_bounds [of 4 "y - 1969"] by simp_all
  have b: "100 * q100 \<le> y - 1901" "y - 1901 < 100 * q100 + 100"
    unfolding q100_def using int_div_bounds [of 100 "y - 1901"] by simp_all
  have c: "400 * q400 \<le> y - 1601" "y - 1601 < 400 * q400 + 400"
    unfolding q400_def using int_div_bounds [of 400 "y - 1601"] by simp_all
  have D: "DayFromYear y = 365 * y - 719050 + q4 - q100 + q400"
    by (simp add: DayFromYear_def q4_def q100_def q400_def)
  have D400: "400 * DayFromYear y = 146000 * y - 287620000 + 400 * q4 - 400 * q100 + 400 * q400"
    unfolding D by simp
  show "146097 * y - 287811596 \<le> 400 * DayFromYear y"
    unfolding D400 using a b c by linarith
  show "400 * DayFromYear y \<le> 146097 * y - 287810501"
    unfolding D400 using a b c by linarith
qed

lemma DayFromYear_less: 
  assumes "y < y'" shows "DayFromYear y < DayFromYear y'"
proof -
  have "y + 1 \<le> y'" using assms by simp
  then show ?thesis
  using DayFromYear_bounds(2) [of y] DayFromYear_bounds(1) [of y'] by linarith
qed

lemma YearFromDay_unique:
  assumes "DayFromYear Y \<le> t" "t < DayFromYear (Y + 1)"
  shows "YearFromDay t = Y"
proof -
  define y0 where "y0 = 1970 + (400 * t) div 146097"
  define y1 where "y1 = Y + 1"
  have q: "146097 * y0 - 287811090 \<le> 400 * t" "400 * t < 146097 * y0 - 287811090 + 146097"
    unfolding y0_def using int_div_bounds [of 146097 "400 * t"] by simp_all
  have lo: "Y - 1 \<le> y0"
    using q assms DayFromYear_bounds(1) [of Y] by linarith
  have "400 * DayFromYear y1 \<le> 146097 * Y  - 287810501 + 146097"
    using DayFromYear_bounds(2) [of y1] by (simp add: y1_def)
  then have hi: "y0 \<le> Y + 1"
    using q assms unfolding y1_def by linarith
  from lo hi consider "y0 = Y - 1" | "y0 = Y" | "y0 = Y + 1" by linarith
  then show ?thesis
  proof cases
    case 1
    then show ?thesis using assms
      by (simp add: YearFromDay_def Let_def flip: y0_def)
  next
    case 2
    then show ?thesis using assms
      by (simp add: YearFromDay_def Let_def flip: y0_def)
  next
    case 3
    have "t < DayFromYear (2 + Y)" using assms DayFromYear_less [of "Y + 1" "2 + Y"] by linarith
    then show ?thesis using assms 3
      by (simp add: YearFromDay_def Let_def flip: y0_def)
  qed
qed

lemma int_div_succ:
  fixes x k :: int
  assumes "0 < k"
  shows "(x + 1) div k = x div k + (if k dvd (x + 1) then 1 else 0)"
proof -
  define q where "q = x div k"
  define r where "r = x mod k"
  have e: "x = k * q + r" by (simp add: q_def r_def)
  have m: "0 \<le> r" "r < k" using assms by (simp_all add: r_def)
  show ?thesis
  proof (cases "r + 1 = k")
    case True
    have x1: "x + 1 = k * (q + 1) + 0" using e True by (simp add: algebra_simps)
    have "(x + 1) div k = q + 1" by (rule int_div_pos_eq [OF x1]) (use assms in simp_all)
    moreover have "k dvd (x + 1)" using x1 by simp
    ultimately show ?thesis by (simp add: q_def)
  next
    case False
    have x1: "x + 1 = k * q + (r + 1)" using e by simp
    have r1: "0 \<le> r + 1" "r + 1 < k" using m False by simp_all
    have "(x + 1) div k = q" by (rule int_div_pos_eq [OF x1 r1])
    moreover have "(x + 1) mod k = r + 1" by (rule int_mod_pos_eq [OF x1 r1])
    then have "\<not> k dvd (x + 1)" using m by (simp add: mod_eq_0_iff_dvd [symmetric])
    ultimately show ?thesis by (simp add: q_def)
  qed
qed

lemma DaysInYear_dvd:
  "DaysInYear y = 365 + (if 4 dvd y then 1 else 0) - (if 100 dvd y then 1 else 0)
     + (if 400 dvd y then 1 else 0)"
proof -
  have d4: "(4::int) dvd 100" and d100: "(100::int) dvd 400" by simp_all
  have i1: "100 dvd y \<Longrightarrow> 4 dvd y" using d4 by (rule dvd_trans)
  have i2: "400 dvd y \<Longrightarrow> 100 dvd y" using d100 by (rule dvd_trans)
  show ?thesis
    using i1 i2 by (simp add: DaysInYear_def mod_eq_0_iff_dvd)
qed

lemma DayFromYear_step: "DayFromYear (y + 1) = DayFromYear y + DaysInYear y"
proof -
  have a: "(y - 1968) div 4 = (y - 1969) div 4 + (if 4 dvd y then 1 else 0)"
    using int_div_succ [of 4 "y - 1969"] by (simp add: dvd_diff_left_iff)
  have b: "(y - 1900) div 100 = (y - 1901) div 100 + (if 100 dvd y then 1 else 0)"
    using int_div_succ [of 100 "y - 1901"] by (simp add: dvd_diff_left_iff)
  have c: "(y - 1600) div 400 = (y - 1601) div 400 + (if 400 dvd y then 1 else 0)"
    using int_div_succ [of 400 "y - 1601"] by (simp add: dvd_diff_left_iff)
  have "DayFromYear (y + 1) = 365 * (y - 1969) + (y - 1968) div 4 - (y - 1900) div 100 + (y - 1600) div 400"
    by (simp add: DayFromYear_def)
  also have "\<dots> = DayFromYear y + DaysInYear y"
    unfolding a b c DaysInYear_dvd DayFromYear_def by simp
  finally show ?thesis .
qed

lemma leapDays_cases: "leapDays y = 0 \<and> DaysInYear y = 365 \<or> leapDays y = 1 \<and> DaysInYear y = 366"
  by (simp add: leapDays_def DaysInYear_def)

lemma MakeDay_in_year:
  assumes "0 \<le> m" "m < 12"
  shows "MakeDay y m d = DayFromYear y + (monthStart (leapDays y) m + d - 1)"
  using assms by (simp add: MakeDay_def Let_def)

lemma month_cases:
  fixes m :: int
  assumes "0 \<le> m" "m < 12"
  shows "m = 0 \<or> m = 1 \<or> m = 2 \<or> m = 3 \<or> m = 4 \<or> m = 5 \<or> m = 6 \<or> m = 7 \<or> m = 8 \<or> m = 9 \<or> m = 10 \<or> m = 11"
  using assms by presburger

lemma month_cascade:
  fixes L m d :: int
  assumes "L = 0 \<or> L = 1" "1 \<le> d" "d \<le> daysInMonth L m"
    and "m = 0 \<or> m = 1 \<or> m = 2 \<or> m = 3 \<or> m = 4 \<or> m = 5 \<or> m = 6 \<or> m = 7 \<or> m = 8 \<or> m = 9 \<or> m = 10 \<or> m = 11"
  shows "(let dd = monthStart L m + d - 1
          in if dd < 31 then 0
         else if dd < 59 + L then 1
         else if dd < 90 + L then 2
         else if dd < 120 + L then 3
         else if dd < 151 + L then 4
         else if dd < 181 + L then 5
         else if dd < 212 + L then 6
         else if dd < 243 + L then 7
         else if dd < 273 + L then 8
         else if dd < 304 + L then 9
         else if dd < 334 + L then 10
         else 11) = m"
  using assms by (elim disjE; simp add: monthStart_def daysInMonth_def)

lemma calendar_roundtrip:
  assumes m: "0 \<le> m" "m < 12" and d: "1 \<le> d" "d \<le> daysInMonth (leapDays y) m"
  shows "YearFromDay (MakeDay y m d) = y"
    and "MonthFromDay (MakeDay y m d) = m"
    and "DateFromDay (MakeDay y m d) = d"
proof -
  define L where "L = leapDays y"
  define k where "k = monthStart L m + d - 1"
  have t: "MakeDay y m d = DayFromYear y + k"
    using m by (simp add: MakeDay_in_year k_def L_def)
  have L: "L = 0 \<and> DaysInYear y = 365 \<or> L = 1 \<and> DaysInYear y = 366"
    unfolding L_def by (rule leapDays_cases)
  have mc: "m = 0 \<or> m = 1 \<or> m = 2 \<or> m = 3 \<or> m = 4 \<or> m = 5 \<or> m = 6 \<or> m = 7 \<or> m = 8 \<or> m = 9 \<or> m = 10 \<or> m = 11"
    using m by (rule month_cases)
  have ms: "monthStart L m + daysInMonth L m \<le> 365 + L" "0 \<le> monthStart L m"
    using mc L by (auto simp: monthStart_def daysInMonth_def)
  have k: "0 \<le> k" "k < DaysInYear y"
    using ms d L unfolding k_def L_def [symmetric] by linarith+
  have Y: "YearFromDay (DayFromYear y + k) = y"
    using k by (intro YearFromDay_unique) (simp_all add: DayFromYear_step)
  show "YearFromDay (MakeDay y m d) = y" by (simp add: t Y)
  have W: "DayWithinYear (DayFromYear y + k) = k" by (simp add: DayWithinYear_def Y)
  have I: "InLeapYear (DayFromYear y + k) = L" by (simp add: InLeapYear_def Y L_def)
  have M: "MonthFromDay (DayFromYear y + k) = m"
  proof -
    have Lc: "L = 0 \<or> L = 1" using L by blast
    have d': "d \<le> daysInMonth L m" using d by (simp add: L_def)
    have C: "(let dd = monthStart L m + d - 1
          in if dd < 31 then 0
         else if dd < 59 + L then 1
         else if dd < 90 + L then 2
         else if dd < 120 + L then 3
         else if dd < 151 + L then 4
         else if dd < 181 + L then 5
         else if dd < 212 + L then 6
         else if dd < 243 + L then 7
         else if dd < 273 + L then 8
         else if dd < 304 + L then 9
         else if dd < 334 + L then 10
         else 11) = m"
      by (rule month_cascade [OF Lc d(1) d' mc])
    show ?thesis
      unfolding MonthFromDay_def W I unfolding k_def Let_def
      using C unfolding Let_def .
  qed
  show "MonthFromDay (MakeDay y m d) = m" by (simp add: t M)
  show "DateFromDay (MakeDay y m d) = d"
    unfolding t DateFromDay_def W I M by (simp add: k_def)
qed

section \<open>Properties of formatExpirationDate\<close>

lemma digit_not_ws: "decimalDigit c \<Longrightarrow> \<not> isWhiteSpace c"
  unfolding isWhiteSpace_def decimalDigit_def
  by (auto simp: word_le_nat_alt)

lemma digit_radix: "decimalDigit c \<Longrightarrow> isRadixDigit 10 c"
  unfolding isRadixDigit_def digitValue_def decimalDigit_def
  by (auto simp: word_le_nat_alt)

lemma parseInt_two_digits:
  assumes "decimalDigit c1" "decimalDigit c2"
  shows "parseInt [c1, c2] = Num (twoDigits c1 c2)"
proof -
  have ws: "\<not> isWhiteSpace c1" using assms digit_not_ws by blast
  have ne: "c1 \<noteq> 0x2D" "c1 \<noteq> 0x2B" "c2 \<noteq> 0x78" "c2 \<noteq> 0x58"
    using assms by (auto simp: word_le_nat_alt decimalDigit_def)
  have r: "isRadixDigit 10 c1" "isRadixDigit 10 c2" using assms by (simp_all add: digit_radix)
  have v: "digitValue c1 = Some (unat c1 - 48)" "digitValue c2 = Some (unat c2 - 48)"
    using assms by (simp_all add: digitValue_def decimalDigit_def)
  have u: "48 \<le> unat c1" "48 \<le> unat c2" using assms by (simp_all add: word_le_nat_alt decimalDigit_def)
  show ?thesis
    using ws ne r v u
    by (simp add: parseInt_def Let_def radixValue_def twoDigits_def js_simps)
qed

lemma twoDigits_range:
  assumes "decimalDigit c1" "decimalDigit c2"
  shows "0 \<le> twoDigits c1 c2" "twoDigits c1 c2 \<le> 99"
proof -
  have "48 \<le> uint c1" "uint c1 \<le> 57" "48 \<le> uint c2" "uint c2 \<le> 57"
    using assms by (simp_all add: decimalDigit_def word_le_def)
  then show "0 \<le> twoDigits c1 c2" "twoDigits c1 c2 \<le> 99"
    by (simp_all add: twoDigits_def)
qed

lemma formatExpirationDate_digits:
  assumes "decimalDigit y1" "decimalDigit y2" "decimalDigit m1" "decimalDigit m2"
    "decimalDigit d1" "decimalDigit d2"
  shows "formatExpirationDate zone [y1, y2, m1, m2, d1, d2]
     = toLocaleDateString zone
         (newDate zone (Num (if twoDigits y1 y2 \<le> 30 then 2000 + twoDigits y1 y2 else 1900 + twoDigits y1 y2))
                  (Num (twoDigits m1 m2 - 1)) (Num (twoDigits d1 d2)))"
  using assms
  by (simp add: formatExpirationDate_def substring_def Let_def parseInt_two_digits fullYear_def
      num_le_def num_add_def num_sub_def)

lemma render_kept_day:
  assumes "zoneKeepsDay zone day"
  shows "toLocaleDateString zone (TimeClip (UTC zone (day * msPerDay)))
     = js (monthNames ! nat (MonthFromDay day) @ '' '' @ decimal (nat (DateFromDay day))
           @ '', '' @ decimal (nat (YearFromDay day)))"
  using assms by (simp add: zoneKeepsDay_def TimeClip_def toLocaleDateString_def Let_def)

lemma render_valid_date:
  assumes "100 \<le> y" "0 \<le> m" "m < 12" "1 \<le> d" "d \<le> daysInMonth (leapDays y) m"
    and "zoneKeepsDay zone (MakeDay y m d)"
  shows "toLocaleDateString zone (newDate zone (Num y) (Num m) (Num d))
     = js (monthNames ! nat m @ '' '' @ decimal (nat d) @ '', '' @ decimal (nat y))"
proof -
  have "newDate zone (Num y) (Num m) (Num d) = TimeClip (UTC zone (MakeDay y m d * msPerDay))"
    using assms(1) by (simp add: newDate_def)
  then show ?thesis
    using assms by (simp add: render_kept_day calendar_roundtrip)
qed

lemma fixedOffset_keeps_day:
  assumes "abs offset < msPerDay" "abs day \<le> 99999999"
  shows "zoneKeepsDay (fixedOffset offset) day"
proof -
  have "abs (day * msPerDay - offset) \<le> 8640000000000000"
    using assms by (simp add: msPerDay_def abs_if split: if_splits)
  then show ?thesis
    using assms by (simp add: zoneKeepsDay_def fixedOffset_def UTC_def LocalTime_def Day_def msPerDay_def)
qed

text \<open>
  The zone is observable: the calendar of Pacific/Kiritimati has no 31 December 1994,
  and the date built from \<open>941231\<close> there is rendered as the next day, in the next year.
\<close>

lemma kiritimati_skipped_day:
  "formatExpirationDate kiritimati (js ''941231'') = js ''January 1, 1995''"
  "formatExpirationDate utcZone (js ''941231'') = js ''December 31, 1994''"
  by code_simp+

lemma boundary_years:
  "formatExpirationDate zone (js ''300101'')
     = toLocaleDateString zone (newDate zone (Num 2030) (Num 0) (Num 1))"
  "formatExpirationDate zone (js ''310101'')
     = toLocaleDateString zone (newDate zone (Num 1931) (Num 0) (Num 1))"
proof -
  have d: "decimalDigit 0x33" "decimalDigit 0x30" "decimalDigit 0x31"
    by (simp_all add: decimalDigit_def)
  have "formatExpirationDate zone [0x33, 0x30, 0x30, 0x31, 0x30, 0x31]
     = toLocaleDateString zone (newDate zone (Num 2030) (Num 0) (Num 1))"
    using formatExpirationDate_digits [of "0x33" "0x30" "0x30" "0x31" "0x30" "0x31" zone] d
    by (simp add: twoDigits_def)
  then show "formatExpirationDate zone (js ''300101'')
     = toLocaleDateString zone (newDate zone (Num 2030) (Num 0) (Num 1))"
    by (simp add: js_simps)
  have "formatExpirationDate zone [0x33, 0x31, 0x30, 0x31, 0x30, 0x31]
     = toLocaleDateString zone (newDate zone (Num 1931) (Num 0) (Num 1))"
    using formatExpirationDate_digits [of "0x33" "0x31" "0x30" "0x31" "0x30" "0x31" zone] d
    by (simp add: twoDigits_def)
  then show "formatExpirationDate zone (js ''310101'')
     = toLocaleDateString zone (newDate zone (Num 1931) (Num 0) (Num 1))"
    by (simp add: js_simps)
qed

lemma decimal_one: "decimal (Suc 0) = ''1''"
  by code_simp

lemma january_first:
  assumes "100 \<le> y" "zoneKeepsDay zone (MakeDay y 0 1)"
  shows "toLocaleDateString zone (newDate zone (Num y) (Num 0) (Num 1))
     = js (''January 1, '' @ decimal (nat y))"
  using render_valid_date [of y 0 1 zone] assms
  by (simp add: daysInMonth_def monthNames_def decimal_one)

text \<open>
  Claim C6. For a six-character string of decimal digits, formatExpirationDate resolves
  the two-digit year \<open>yy\<close> to \<open>2000 + yy\<close> when \<open>yy\<close> is 00 to 30 (the years 2000 to
  2030) and to \<open>1900 + yy\<close> when it is 31 to 99 (the years 1931 to 1999): in every time
  zone that year is the one the date is built from, and for a month of 01 to 12 and a day
  the month has, in a zone that keeps that day, it is the year of the rendered date.
  In particular the date of \<open>300101\<close> is built from the year 2030 and that of
  \<open>310101\<close> from the year 1931, and they are rendered as January 1, 2030 and January 1,
  1931 in every zone that keeps these days.
\<close>

theorem formatExpirationDate_century:
  "(decimalDigit y1 \<and> decimalDigit y2 \<and> decimalDigit m1 \<and> decimalDigit m2
      \<and> decimalDigit d1 \<and> decimalDigit d2 \<longrightarrow>
     (let yy = twoDigits y1 y2; mm = twoDigits m1 m2; dd = twoDigits d1 d2;
          resolved = (if yy \<le> 30 then 2000 + yy else 1900 + yy)
      in 0 \<le> yy \<and> yy \<le> 99
         \<and> (yy \<le> 30 \<longrightarrow> 2000 \<le> resolved \<and> resolved \<le> 2030)
         \<and> (31 \<le> yy \<longrightarrow> 1931 \<le> resolved \<and> resolved \<le> 1999)
         \<and> formatExpirationDate zone [y1, y2, m1, m2, d1, d2]
             = toLocaleDateString zone (newDate zone (Num resolved) (Num (mm - 1)) (Num dd))
         \<and> (1 \<le> mm \<and> mm \<le> 12 \<and> 1 \<le> dd \<and> dd \<le> daysInMonth (leapDays resolved) (mm - 1)
              \<and> zoneKeepsDay zone (MakeDay resolved (mm - 1) dd) \<longrightarrow>
              formatExpirationDate zone [y1, y2, m1, m2, d1, d2]
                = js (monthNames ! nat (mm - 1) @ '' '' @ decimal (nat dd) @ '', ''
                      @ decimal (nat resolved)))))
   \<and> formatExpirationDate zone (js ''300101'')
       = toLocaleDateString zone (newDate zone (Num 2030) (Num 0) (Num 1))
   \<and> formatExpirationDate zone (js ''310101'')
       = toLocaleDateString zone (newDate zone (Num 1931) (Num 0) (Num 1))
   \<and> (zoneKeepsDay zone (MakeDay 2030 0 1) \<longrightarrow>
        formatExpirationDate zone (js ''300101'') = js ''January 1, 2030'')
   \<and> (zoneKeepsDay zone (MakeDay 1931 0 1) \<longrightarrow>
        formatExpirationDate zone (js ''310101'') = js ''January 1, 1931'')"
proof (intro conjI impI)
  assume "decimalDigit y1 \<and> decimalDigit y2 \<and> decimalDigit m1 \<and> decimalDigit m2
      \<and> decimalDigit d1 \<and> decimalDigit d2"
  then have dg: "decimalDigit y1" "decimalDigit y2" "decimalDigit m1" "decimalDigit m2"
    "decimalDigit d1" "decimalDigit d2" by simp_all
  define yy where "yy = twoDigits y1 y2"
  define mm where "mm = twoDigits m1 m2"
  define dd where "dd = twoDigits d1 d2"
  define resolved where "resolved = (if yy \<le> 30 then 2000 + yy else 1900 + yy)"
  have yr: "0 \<le> yy" "yy \<le> 99"
    unfolding yy_def using dg by (simp_all add: twoDigits_range)
  have r1: "yy \<le> 30 \<longrightarrow> 2000 \<le> resolved \<and> resolved \<le> 2030"
    using yr by (simp add: resolved_def)
  have r2: "31 \<le> yy \<longrightarrow> 1931 \<le> resolved \<and> resolved \<le> 1999"
    using yr by (simp add: resolved_def)
  have f: "formatExpirationDate zone [y1, y2, m1, m2, d1, d2]
             = toLocaleDateString zone (newDate zone (Num resolved) (Num (mm - 1)) (Num dd))"
    unfolding resolved_def yy_def mm_def dd_def using dg by (rule formatExpirationDate_digits)
  have big: "100 \<le> resolved" using yr by (simp add: resolved_def)
  have g: "1 \<le> mm \<and> mm \<le> 12 \<and> 1 \<le> dd \<and> dd \<le> daysInMonth (leapDays resolved) (mm - 1)
              \<and> zoneKeepsDay zone (MakeDay resolved (mm - 1) dd) \<longrightarrow>
              formatExpirationDate zone [y1, y2, m1, m2, d1, d2]
                = js (monthNames ! nat (mm - 1) @ '' '' @ decimal (nat dd) @ '', ''
                      @ decimal (nat resolved))"
  proof (intro impI)
    assume v: "1 \<le> mm \<and> mm \<le> 12 \<and> 1 \<le> dd \<and> dd \<le> daysInMonth (leapDays resolved) (mm - 1)
              \<and> zoneKeepsDay zone (MakeDay resolved (mm - 1) dd)"
    show "formatExpirationDate zone [y1, y2, m1, m2, d1, d2]
                = js (monthNames ! nat (mm - 1) @ '' '' @ decimal (nat dd) @ '', ''
                      @ decimal (nat resolved))"
      unfolding f by (rule render_valid_date) (use big v in simp_all)
  qed
  have all: "0 \<le> yy \<and> yy \<le> 99
         \<and> (yy \<le> 30 \<longrightarrow> 2000 \<le> resolved \<and> resolved \<le> 2030)
         \<and> (31 \<le> yy \<longrightarrow> 1931 \<le> resolved \<and> resolved \<le> 1999)
         \<and> formatExpirationDate zone [y1, y2, m1, m2, d1, d2]
             = toLocaleDateString zone (newDate zone (Num resolved) (Num (mm - 1)) (Num dd))
         \<and> (1 \<le> mm \<and> mm \<le> 12 \<and> 1 \<le> dd \<and> dd \<le> daysInMonth (leapDays resolved) (mm - 1)
              \<and> zoneKeepsDay zone (MakeDay resolved (mm - 1) dd) \<longrightarrow>
              formatExpirationDate zone [y1, y2, m1, m2, d1, d2]
                = js (monthNames ! nat (mm - 1) @ '' '' @ decimal (nat dd) @ '', ''
                      @ decimal (nat resolved)))"
    by (intro conjI yr r1 r2 f g)
  show "let yy = twoDigits y1 y2; mm = twoDigits m1 m2; dd = twoDigits d1 d2;
          resolved = (if yy \<le> 30 then 2000 + yy else 1900 + yy)
      in 0 \<le> yy \<and> yy \<le> 99
         \<and> (yy \<le> 30 \<longrightarrow> 2000 \<le> resolved \<and> resolved \<le> 2030)
         \<and> (31 \<le> yy \<longrightarrow> 1931 \<le> resolved \<and> resolved \<le> 1999)
         \<and> formatExpirationDate zone [y1, y2, m1, m2, d1, d2]
             = toLocaleDateString zone (newDate zone (Num resolved) (Num (mm - 1)) (Num dd))
         \<and> (1 \<le> mm \<and> mm \<le> 12 \<and> 1 \<le> dd \<and> dd \<le> daysInMonth (leapDays resolved) (mm - 1)
              \<and> zoneKeepsDay zone (MakeDay resolved (mm - 1) dd) \<longrightarrow>
              formatExpirationDate zone [y1, y2, m1, m2, d1, d2]
                = js (monthNames ! nat (mm - 1) @ '' '' @ decimal (nat dd) @ '', ''
                      @ decimal (nat resolved)))"
    unfolding Let_def
    using all unfolding resolved_def yy_def mm_def dd_def .
next
  show "formatExpirationDate zone (js ''300101'')
       = toLocaleDateString zone (newDate zone (Num 2030) (Num 0) (Num 1))"
    by (rule boundary_years)
next
  show "formatExpirationDate zone (js ''310101'')
       = toLocaleDateString zone (newDate zone (Num 1931) (Num 0) (Num 1))"
    by (rule boundary_years)
next
  assume "zoneKeepsDay zone (MakeDay 2030 0 1)"
  then have "toLocaleDateString zone (newDate zone (Num 2030) (Num 0) (Num 1))
     = js (''January 1, '' @ decimal (nat 2030))"
    by (intro january_first) simp_all
  also have "\<dots> = js ''January 1, 2030''" by code_simp
  finally show "formatExpirationDate zone (js ''300101'') = js ''January 1, 2030''"
    by (simp only: boundary_years)
next
  assume "zoneKeepsDay zone (MakeDay 1931 0 1)"
  then have "toLocaleDateString zone (newDate zone (Num 1931) (Num 0) (Num 1))
     = js (''January 1, '' @ decimal (nat 1931))"
    by (intro january_first) simp_all
  also have "\<dots> = js ''January 1, 1931''" by code_simp
  finally show "formatExpirationDate zone (js ''310101'') = js ''January 1, 1931''"
    by (simp only: boundary_years)
qed

theorem formatExpirationDate_century_witness:
  "decimalDigit 0x33 \<and> decimalDigit 0x30 \<and> decimalDigit 0x31 \<and> decimalDigit 0x32
   \<and> twoDigits 0x33 0x30 = 30 \<and> twoDigits 0x31 0x32 = 12 \<and> twoDigits 0x33 0x31 = 31
   \<and> (31::int) \<le> daysInMonth (leapDays 2030) 11
   \<and> zoneKeepsDay utcZone (MakeDay 2030 11 31)
   \<and> zoneKeepsDay utcZone (MakeDay 2030 0 1)
   \<and> zoneKeepsDay utcZone (MakeDay 1931 0 1)
   \<and> formatExpirationDate utcZone (js ''301231'') = js ''December 31, 2030''
   \<and> formatExpirationDate utcZone (js ''300101'') = js ''January 1, 2030''
   \<and> formatExpirationDate utcZone (js ''310101'') = js ''January 1, 1931''"
proof -
  have d: "decimalDigit 0x33" "decimalDigit 0x30" "decimalDigit 0x31" "decimalDigit 0x32"
    by (simp_all add: decimalDigit_def)
  have t: "twoDigits 0x33 0x30 = 30" "twoDigits 0x31 0x32 = 12" "twoDigits 0x33 0x31 = 31"
    by (simp_all add: twoDigits_def)
  have m: "(31::int) \<le> daysInMonth (leapDays 2030) 11"
    by (simp add: daysInMonth_def)
  have z: "zoneKeepsDay utcZone (MakeDay 2030 11 31)" "zoneKeepsDay utcZone (MakeDay 2030 0 1)"
    "zoneKeepsDay utcZone (MakeDay 1931 0 1)"
    by code_simp+
  have n: "monthNames ! nat 11 = ''December''" by (simp add: monthNames_def)
  have s: "js ''301231'' = [0x33, 0x30, 0x31, 0x32, 0x33, 0x31]" by (simp add: js_simps)
  note T = formatExpirationDate_century
    [where ?y1.0 = "0x33" and ?y2.0 = "0x30" and ?m1.0 = "0x31" and ?m2.0 = "0x32"
       and ?d1.0 = "0x33" and ?d2.0 = "0x31" and zone = utcZone]
  have a: "formatExpirationDate utcZone (js ''301231'') = js ''December 31, 2030''"
    using T [THEN conjunct1] d t m z(1) n unfolding s
    by (auto simp add: Let_def js_simps decimal.simps)
  have b: "formatExpirationDate utcZone (js ''300101'') = js ''January 1, 2030''"
    by (rule T [THEN conjunct2, THEN conjunct2, THEN conjunct2, THEN conjunct1, THEN mp, OF z(2)])
  have c: "formatExpirationDate utcZone (js ''310101'') = js ''January 1, 1931''"
    by (rule T [THEN conjunct2, THEN conjunct2, THEN conjunct2, THEN conjunct2, THEN mp, OF z(3)])
  show ?thesis by (intro conjI d t m z a b c)
qed

section \<open>Properties of parseGS1DataMatrix\<close>

lemma substring_window: "substring s p (p + k) = take k (drop p s)"
  by (simp add: substring_take_drop)

lemma substring_window0: "substring s 0 (0 + k) = take k s"
  using substring_window [of s 0 k] by simp

lemma substring_from_drop: "substring_from s p = drop p s"
  by (simp add: substring_from_def min_def)

lemma convert_ok:
  "length gtin = 14 \<Longrightarrow>
   convertGTINtoNDC gtin
     = Inr (take 5 (drop 3 gtin) @ js ''-'' @ take 4 (drop 8 gtin) @ js ''-'' @ take 2 (drop 12 gtin))"
  by (erule length14_elems)
     (simp add: convertGTINtoNDC_def substring_def substring_from_def js_simps)

lemma convert_fail:
  "length gtin \<noteq> 14 \<Longrightarrow>
   convertGTINtoNDC gtin = Inl (Error ''Invalid GTIN format. Expected 14 digits.'')"
  by (simp add: convertGTINtoNDC_def)

lemma extractGTIN_unfold:
  "extractGTIN data (result, 0) =
     (if take 2 data = js ''01'' then
        (case convertGTINtoNDC (take 14 (drop 2 data)) of
           Inl e \<Rightarrow> Inl (e, result(''gtin'' \<mapsto> take 14 (drop 2 data)))
         | Inr ndc \<Rightarrow> Inr (result(''gtin'' \<mapsto> take 14 (drop 2 data), ''ndc'' \<mapsto> ndc), 16))
      else Inr (result, 0))"
  by (simp only: extractGTIN_def Let_def substring_window prod.case drop_0 arith_simps)

lemma extractExpiration_unfold:
  "extractExpiration zone data (result, pos) =
     (if take 2 (drop pos data) = js ''17'' then
        (result(''expirationDateRaw'' \<mapsto> take 6 (drop (pos + 2) data),
                ''expirationDate'' \<mapsto> formatExpirationDate zone (take 6 (drop (pos + 2) data))),
         pos + 8)
      else (result, pos))"
  by (simp only: extractExpiration_def Let_def substring_window prod.case add.assoc arith_simps)

lemma extractLot_unfold:
  "extractLot data (result, pos) =
     (if take 2 (drop pos data) = js ''10'' then
        (result(''lotNumber'' \<mapsto> drop (pos + 2) data), pos + 2)
      else (result, pos))"
  by (simp only: extractLot_def Let_def substring_window substring_from_drop prod.case)

lemma gtin_window_length: "length (take 14 (drop 2 data)) = 14 \<longleftrightarrow> 16 \<le> length data"
  by auto

lemma parse_unfold:
  "parseGS1DataMatrix zone data =
     (case extractGTIN data ([''raw'' \<mapsto> data], 0) of
        Inl (e, r) \<Rightarrow> (Return r, [e])
      | Inr st \<Rightarrow> (Return (fst (extractLot data (extractExpiration zone data st))), []))"
  by (simp add: parseGS1DataMatrix_def parse_try_def Let_def split: sum.splits prod.splits)

lemma dom_extractExpiration:
  "dom (fst (extractExpiration zone data (r, p))) \<subseteq> dom r \<union> {''expirationDateRaw'', ''expirationDate''}"
  by (auto simp: extractExpiration_unfold)

lemma dom_extractLot:
  "dom (fst (extractLot data (r, p))) \<subseteq> dom r \<union> {''lotNumber''}"
  by (auto simp: extractLot_unfold)

lemma reference_expiration:
  "formatExpirationDate zone (js ''131028'')
     = toLocaleDateString zone (newDate zone (Num 2013) (Num 9) (Num 28))"
proof -
  have d: "decimalDigit 0x30" "decimalDigit 0x31" "decimalDigit 0x32" "decimalDigit 0x33"
    "decimalDigit 0x38"
    by (simp_all add: decimalDigit_def)
  have "formatExpirationDate zone [0x31, 0x33, 0x31, 0x30, 0x32, 0x38]
     = toLocaleDateString zone (newDate zone (Num 2013) (Num 9) (Num 28))"
    using formatExpirationDate_digits [of "0x31" "0x33" "0x31" "0x30" "0x32" "0x38" zone] d
    by (simp add: twoDigits_def)
  then show ?thesis by (simp add: js_simps)
qed

lemma reference_rendering:
  assumes "zoneKeepsDay zone (MakeDay 2013 9 28)"
  shows "toLocaleDateString zone (newDate zone (Num 2013) (Num 9) (Num 28))
     = js ''October 28, 2013''"
proof -
  have "toLocaleDateString zone (newDate zone (Num 2013) (Num 9) (Num 28))
     = js (monthNames ! nat 9 @ '' '' @ decimal (nat 28) @ '', '' @ decimal (nat 2013))"
    using assms by (intro render_valid_date) (simp_all add: daysInMonth_def)
  also have "\<dots> = js ''October 28, 2013''" by code_simp
  finally show ?thesis .
qed

lemma reference_ndc: "convertGTINtoNDC (js ''00349281589058'') = Inr (js ''49281-5890-58'')"
  by code_simp

lemma reference_substrings:
  "substring (js ''010034928158905817131028100U42275AA'') 0 2 = js ''01''"
  "substring (js ''010034928158905817131028100U42275AA'') 2 16 = js ''00349281589058''"
  "substring (js ''010034928158905817131028100U42275AA'') 16 18 = js ''17''"
  "substring (js ''010034928158905817131028100U42275AA'') 18 24 = js ''131028''"
  "substring (js ''010034928158905817131028100U42275AA'') 24 26 = js ''10''"
  "substring_from (js ''010034928158905817131028100U42275AA'') 26 = js ''0U42275AA''"
  by code_simp+

lemma reference_record:
  "parseGS1DataMatrix zone (js ''010034928158905817131028100U42275AA'')
     = (Return [''raw'' \<mapsto> js ''010034928158905817131028100U42275AA'',
                ''gtin'' \<mapsto> js ''00349281589058'',
                ''ndc'' \<mapsto> js ''49281-5890-58'',
                ''expirationDateRaw'' \<mapsto> js ''131028'',
                ''expirationDate'' \<mapsto>
                   toLocaleDateString zone (newDate zone (Num 2013) (Num 9) (Num 28)),
                ''lotNumber'' \<mapsto> js ''0U42275AA''], [])"
  by (simp only: parseGS1DataMatrix_def parse_try_def extractGTIN_def extractExpiration_def
        extractLot_def Let_def reference_substrings reference_expiration reference_ndc
        prod.case sum.case if_True arith_simps refl)

text \<open>
  Claim C2. parseGS1DataMatrix applied to the payload
  \<open>010034928158905817131028100U42275AA\<close> returns the record with gtin
  \<open>00349281589058\<close>, ndc \<open>49281-5890-58\<close>, expirationDateRaw \<open>131028\<close>, lotNumber
  \<open>0U42275AA\<close> (and the payload as raw), and nothing is written to the console. Its
  expirationDate is, in every time zone, the rendering of the date built from the year
  2013, the month October (index 9) and the day 28; in every zone that keeps that day
  it is the text October 28, 2013.
\<close>

theorem parse_reference_payload:
  "parseGS1DataMatrix zone (js ''010034928158905817131028100U42275AA'')
     = (Return [''raw'' \<mapsto> js ''010034928158905817131028100U42275AA'',
                ''gtin'' \<mapsto> js ''00349281589058'',
                ''ndc'' \<mapsto> js ''49281-5890-58'',
                ''expirationDateRaw'' \<mapsto> js ''131028'',
                ''expirationDate'' \<mapsto>
                   toLocaleDateString zone (newDate zone (Num 2013) (Num 9) (Num 28)),
                ''lotNumber'' \<mapsto> js ''0U42275AA''], [])
   \<and> (zoneKeepsDay zone (MakeDay 2013 9 28) \<longrightarrow>
        parseGS1DataMatrix zone (js ''010034928158905817131028100U42275AA'')
          = (Return [''raw'' \<mapsto> js ''010034928158905817131028100U42275AA'',
                     ''gtin'' \<mapsto> js ''00349281589058'',
                     ''ndc'' \<mapsto> js ''49281-5890-58'',
                     ''expirationDateRaw'' \<mapsto> js ''131028'',
                     ''expirationDate'' \<mapsto> js ''October 28, 2013'',
                     ''lotNumber'' \<mapsto> js ''0U42275AA''], []))"
proof (intro conjI impI)
  show "parseGS1DataMatrix zone (js ''010034928158905817131028100U42275AA'')
     = (Return [''raw'' \<mapsto> js ''010034928158905817131028100U42275AA'',
                ''gtin'' \<mapsto> js ''00349281589058'',
                ''ndc'' \<mapsto> js ''49281-5890-58'',
                ''expirationDateRaw'' \<mapsto> js ''131028'',
                ''expirationDate'' \<mapsto>
                   toLocaleDateString zone (newDate zone (Num 2013) (Num 9) (Num 28)),
                ''lotNumber'' \<mapsto> js ''0U42275AA''], [])"
    by (rule reference_record)
next
  assume "zoneKeepsDay zone (MakeDay 2013 9 28)"
  then show "parseGS1DataMatrix zone (js ''010034928158905817131028100U42275AA'')
          = (Return [''raw'' \<mapsto> js ''010034928158905817131028100U42275AA'',
                     ''gtin'' \<mapsto> js ''00349281589058'',
                     ''ndc'' \<mapsto> js ''49281-5890-58'',
                     ''expirationDateRaw'' \<mapsto> js ''131028'',
                     ''expirationDate'' \<mapsto> js ''October 28, 2013'',
                     ''lotNumber'' \<mapsto> js ''0U42275AA''], [])"
    by (simp only: reference_record reference_rendering)
qed

theorem parse_reference_payload_witness:
  "zoneKeepsDay utcZone (MakeDay 2013 9 28)
   \<and> parseGS1DataMatrix utcZone (js ''010034928158905817131028100U42275AA'')
       = (Return [''raw'' \<mapsto> js ''010034928158905817131028100U42275AA'',
                  ''gtin'' \<mapsto> js ''00349281589058'',
                  ''ndc'' \<mapsto> js ''49281-5890-58'',
                  ''expirationDateRaw'' \<mapsto> js ''131028'',
                  ''expirationDate'' \<mapsto> js ''October 28, 2013'',
                  ''lotNumber'' \<mapsto> js ''0U42275AA''], [])"
proof -
  have z: "zoneKeepsDay utcZone (MakeDay 2013 9 28)" by code_simp
  show ?thesis
    using z parse_reference_payload [of utcZone, THEN conjunct2, THEN mp, OF z] by (rule conjI)
qed

text \<open>
  Claim C7. Whenever the cursor of parseGS1DataMatrix reaches the AI 10 (the try block
  has not thrown, and the two characters at the cursor after the first two steps are
  \<open>10\<close>), lotNumber is the whole rest of the payload after that AI and the record is
  otherwise the one built so far: nothing after the AI is parsed. So for every string
  \<open>lot\<close>, whatever it contains, the payloads \<open>10 lot\<close>, \<open>01 gtin 10 lot\<close>,
  \<open>17 date 10 lot\<close> and \<open>01 gtin 17 date 10 lot\<close> (gtin of 14 and date of 6
  characters) give lotNumber \<open>lot\<close>.
\<close>

theorem lot_takes_all_remaining:
  "(extractGTIN data ([''raw'' \<mapsto> data], 0) = Inr st
      \<and> extractExpiration zone data st = (result, pos)
      \<and> substring data pos (pos + 2) = js ''10'' \<longrightarrow>
     parseGS1DataMatrix zone data = (Return (result(''lotNumber'' \<mapsto> substring_from data (pos + 2))), [])
     \<and> substring_from data (pos + 2) = drop (pos + 2) data)
   \<and> parseGS1DataMatrix zone (js ''10'' @ lot)
       = (Return [''raw'' \<mapsto> js ''10'' @ lot, ''lotNumber'' \<mapsto> lot], [])
   \<and> (length gtin = 14 \<longrightarrow>
       parseGS1DataMatrix zone (js ''01'' @ gtin @ js ''10'' @ lot)
         = (Return [''raw'' \<mapsto> js ''01'' @ gtin @ js ''10'' @ lot, ''gtin'' \<mapsto> gtin,
                    ''ndc'' \<mapsto> ndcText gtin, ''lotNumber'' \<mapsto> lot], []))
   \<and> (length expiry = 6 \<longrightarrow>
       parseGS1DataMatrix zone (js ''17'' @ expiry @ js ''10'' @ lot)
         = (Return [''raw'' \<mapsto> js ''17'' @ expiry @ js ''10'' @ lot, ''expirationDateRaw'' \<mapsto> expiry,
                    ''expirationDate'' \<mapsto> formatExpirationDate zone expiry, ''lotNumber'' \<mapsto> lot], []))
   \<and> (length gtin = 14 \<and> length expiry = 6 \<longrightarrow>
       parseGS1DataMatrix zone (js ''01'' @ gtin @ js ''17'' @ expiry @ js ''10'' @ lot)
         = (Return [''raw'' \<mapsto> js ''01'' @ gtin @ js ''17'' @ expiry @ js ''10'' @ lot, ''gtin'' \<mapsto> gtin,
                    ''ndc'' \<mapsto> ndcText gtin, ''expirationDateRaw'' \<mapsto> expiry,
                    ''expirationDate'' \<mapsto> formatExpirationDate zone expiry, ''lotNumber'' \<mapsto> lot], []))"
proof (intro conjI impI)
  assume a: "extractGTIN data ([''raw'' \<mapsto> data], 0) = Inr st
      \<and> extractExpiration zone data st = (result, pos)
      \<and> substring data pos (pos + 2) = js ''10''"
  have a3: "take 2 (drop pos data) = js ''10''"
    using a substring_window [of data pos 2] by simp
  have a1: "extractGTIN data ([''raw'' \<mapsto> data], 0) = Inr st"
    and a2: "extractExpiration zone data st = (result, pos)" using a by simp_all
  show "parseGS1DataMatrix zone data = (Return (result(''lotNumber'' \<mapsto> substring_from data (pos + 2))), [])"
    by (simp add: parse_unfold a1 a2 a3 extractLot_unfold substring_from_drop)
  show "substring_from data (pos + 2) = drop (pos + 2) data"
    by (rule substring_from_drop)
next
  show "parseGS1DataMatrix zone (js ''10'' @ lot)
       = (Return [''raw'' \<mapsto> js ''10'' @ lot, ''lotNumber'' \<mapsto> lot], [])"
    by (simp add: parse_unfold extractGTIN_unfold extractExpiration_unfold extractLot_unfold js_simps)
next
  assume g: "length gtin = 14"
  then show "parseGS1DataMatrix zone (js ''01'' @ gtin @ js ''10'' @ lot)
         = (Return [''raw'' \<mapsto> js ''01'' @ gtin @ js ''10'' @ lot, ''gtin'' \<mapsto> gtin,
                    ''ndc'' \<mapsto> ndcText gtin, ''lotNumber'' \<mapsto> lot], [])"
    by (simp add: parse_unfold extractGTIN_unfold extractExpiration_unfold extractLot_unfold
        js_simps convert_ok ndcText_def)
next
  assume e: "length expiry = 6"
  then show "parseGS1DataMatrix zone (js ''17'' @ expiry @ js ''10'' @ lot)
         = (Return [''raw'' \<mapsto> js ''17'' @ expiry @ js ''10'' @ lot, ''expirationDateRaw'' \<mapsto> expiry,
                    ''expirationDate'' \<mapsto> formatExpirationDate zone expiry, ''lotNumber'' \<mapsto> lot], [])"
    by (simp add: parse_unfold extractGTIN_unfold extractExpiration_unfold extractLot_unfold
        js_simps)
next
  assume "length gtin = 14 \<and> length expiry = 6"
  then show "parseGS1DataMatrix zone (js ''01'' @ gtin @ js ''17'' @ expiry @ js ''10'' @ lot)
         = (Return [''raw'' \<mapsto> js ''01'' @ gtin @ js ''17'' @ expiry @ js ''10'' @ lot, ''gtin'' \<mapsto> gtin,
                    ''ndc'' \<mapsto> ndcText gtin, ''expirationDateRaw'' \<mapsto> expiry,
                    ''expirationDate'' \<mapsto> formatExpirationDate zone expiry, ''lotNumber'' \<mapsto> lot], [])"
    by (simp add: parse_unfold extractGTIN_unfold extractExpiration_unfold extractLot_unfold
        js_simps convert_ok ndcText_def)
qed

theorem lot_takes_all_remaining_witness:
  "length (js ''00358160826528'') = 14 \<and> length (js ''260827'') = 6
   \<and> fst (parseGS1DataMatrix utcZone
        (js ''01'' @ js ''00358160826528'' @ js ''17'' @ js ''260827'' @ js ''10'' @ js ''Z27PB2150MYPBEBMH''))
     = Return [''raw'' \<mapsto> js ''01'' @ js ''00358160826528'' @ js ''17'' @ js ''260827'' @ js ''10''
                                @ js ''Z27PB2150MYPBEBMH'',
               ''gtin'' \<mapsto> js ''00358160826528'',
               ''ndc'' \<mapsto> ndcText (js ''00358160826528''),
               ''expirationDateRaw'' \<mapsto> js ''260827'',
               ''expirationDate'' \<mapsto> formatExpirationDate utcZone (js ''260827''),
               ''lotNumber'' \<mapsto> js ''Z27PB2150MYPBEBMH'']"
  using lot_takes_all_remaining
    [where lot = "js ''Z27PB2150MYPBEBMH''" and gtin = "js ''00358160826528''"
       and expiry = "js ''260827''" and zone = utcZone]
  by (simp add: js_def)

text \<open>
  Claim C10. For every payload the record returned by parseGS1DataMatrix has no
  serialNumber property: its properties are among raw, gtin, ndc, expirationDateRaw,
  expirationDate and lotNumber. A payload that starts with the AI 21 gives the record
  with raw alone.
\<close>

theorem serialNumber_never_populated:
  "(\<exists>result log. parseGS1DataMatrix zone data = (Return result, log)
       \<and> result ''serialNumber'' = None
       \<and> dom result \<subseteq> {''raw'', ''gtin'', ''ndc'', ''expirationDateRaw'', ''expirationDate'', ''lotNumber''})
   \<and> (take 2 data = js ''21'' \<longrightarrow> parseGS1DataMatrix zone data = (Return [''raw'' \<mapsto> data], []))"
proof (intro conjI impI)
  show "\<exists>result log. parseGS1DataMatrix zone data = (Return result, log)
       \<and> result ''serialNumber'' = None
       \<and> dom result \<subseteq> {''raw'', ''gtin'', ''ndc'', ''expirationDateRaw'', ''expirationDate'', ''lotNumber''}"
    unfolding parse_unfold extractGTIN_unfold
    by (auto simp: extractExpiration_unfold extractLot_unfold split: sum.splits if_splits)
next
  assume a: "take 2 data = js ''21''"
  have n: "js ''21'' \<noteq> js ''01''" "js ''21'' \<noteq> js ''17''" "js ''21'' \<noteq> js ''10''"
    by (simp_all add: js_simps)
  show "parseGS1DataMatrix zone data = (Return [''raw'' \<mapsto> data], [])"
    unfolding parse_unfold extractGTIN_unfold using a n
    by (simp add: extractExpiration_unfold extractLot_unfold)
qed

theorem serialNumber_never_populated_witness:
  "take 2 (js ''2150MYPBEBMH'') = js ''21''
   \<and> parseGS1DataMatrix utcZone (js ''2150MYPBEBMH'') = (Return [''raw'' \<mapsto> js ''2150MYPBEBMH''], [])"
  using serialNumber_never_populated [where data = "js ''2150MYPBEBMH''" and zone = utcZone] by (simp add: js_simps)

lemma substring_peek0: "substring s 0 2 = take 2 s"
  by (simp add: substring_take_drop)

lemma substring_gtin: "substring s 2 16 = take 14 (drop 2 s)"
  by (simp add: substring_take_drop)

text \<open>
  Claim C9. parseGS1DataMatrix returns a record for every payload and never throws to
  its caller; the record always holds the payload as raw. Where the two characters at
  the cursor are not the AI looked for (01 at the start, then 17, then 10), the fields
  of that AI stay undefined and the fields already extracted are kept. The one error
  the try block can throw, the invalid-format error of convertGTINtoNDC, is caught and
  written to the console, and the record built up to the throw is returned.
\<close>

theorem parse_never_raises:
  "(\<exists>result console. parseGS1DataMatrix zone data = (Return result, console) \<and> result ''raw'' = Some data)
   \<and> (substring data 0 2 \<noteq> js ''01'' \<longrightarrow>
        (\<exists>result. parseGS1DataMatrix zone data = (Return result, [])
           \<and> result ''gtin'' = None \<and> result ''ndc'' = None))
   \<and> (extractGTIN data ([''raw'' \<mapsto> data], 0) = Inr (result1, pos1)
        \<and> substring data pos1 (pos1 + 2) \<noteq> js ''17'' \<longrightarrow>
        (\<exists>result. parseGS1DataMatrix zone data = (Return result, [])
           \<and> result ''expirationDateRaw'' = None \<and> result ''expirationDate'' = None
           \<and> result ''gtin'' = result1 ''gtin'' \<and> result ''ndc'' = result1 ''ndc''))
   \<and> (extractGTIN data ([''raw'' \<mapsto> data], 0) = Inr st
        \<and> extractExpiration zone data st = (result2, pos2)
        \<and> substring data pos2 (pos2 + 2) \<noteq> js ''10'' \<longrightarrow>
        parseGS1DataMatrix zone data = (Return result2, []) \<and> result2 ''lotNumber'' = None)
   \<and> (parse_try zone data [''raw'' \<mapsto> data] = Inl (e, partial) \<longrightarrow>
        parseGS1DataMatrix zone data = (Return partial, [e])
        \<and> e = Error ''Invalid GTIN format. Expected 14 digits.''
        \<and> partial = [''raw'' \<mapsto> data, ''gtin'' \<mapsto> substring data 2 16])
   \<and> (length rest < 14 \<longrightarrow>
        parseGS1DataMatrix zone (js ''01'' @ rest)
          = (Return [''raw'' \<mapsto> js ''01'' @ rest, ''gtin'' \<mapsto> rest],
             [Error ''Invalid GTIN format. Expected 14 digits.'']))"
proof (intro conjI impI)
  show "\<exists>result console. parseGS1DataMatrix zone data = (Return result, console) \<and> result ''raw'' = Some data"
    unfolding parse_unfold extractGTIN_unfold
    by (auto simp: extractExpiration_unfold extractLot_unfold split: sum.splits if_splits)
next
  assume "substring data 0 2 \<noteq> js ''01''"
  then have n: "take 2 data \<noteq> js ''01''" unfolding substring_peek0 .
  show "\<exists>result. parseGS1DataMatrix zone data = (Return result, [])
           \<and> result ''gtin'' = None \<and> result ''ndc'' = None"
    unfolding parse_unfold extractGTIN_unfold using n
    by (auto simp: extractExpiration_unfold extractLot_unfold)
next
  assume a: "extractGTIN data ([''raw'' \<mapsto> data], 0) = Inr (result1, pos1)
        \<and> substring data pos1 (pos1 + 2) \<noteq> js ''17''"
  have n: "take 2 (drop pos1 data) \<noteq> js ''17''"
    using a unfolding substring_window by simp
  have g: "extractGTIN data ([''raw'' \<mapsto> data], 0) = Inr (result1, pos1)" using a by simp
  have l: "result1 ''lotNumber'' = None \<and> result1 ''expirationDateRaw'' = None \<and> result1 ''expirationDate'' = None"
    using g unfolding extractGTIN_unfold by (auto split: if_splits sum.splits)
  show "\<exists>result. parseGS1DataMatrix zone data = (Return result, [])
           \<and> result ''expirationDateRaw'' = None \<and> result ''expirationDate'' = None
           \<and> result ''gtin'' = result1 ''gtin'' \<and> result ''ndc'' = result1 ''ndc''"
    unfolding parse_unfold g using n l
    by (auto simp: extractExpiration_unfold extractLot_unfold)
next
  assume a: "extractGTIN data ([''raw'' \<mapsto> data], 0) = Inr st
        \<and> extractExpiration zone data st = (result2, pos2)
        \<and> substring data pos2 (pos2 + 2) \<noteq> js ''10''"
  have n: "take 2 (drop pos2 data) \<noteq> js ''10''"
    using a unfolding substring_window by simp
  have g: "extractGTIN data ([''raw'' \<mapsto> data], 0) = Inr st"
    and x: "extractExpiration zone data st = (result2, pos2)" using a by simp_all
  show "parseGS1DataMatrix zone data = (Return result2, [])"
    unfolding parse_unfold g using n x by (simp add: extractLot_unfold)
  obtain r p where st: "st = (r, p)" by (cases st)
  have "r ''lotNumber'' = None"
    using g unfolding extractGTIN_unfold st by (auto split: if_splits sum.splits)
  then show "result2 ''lotNumber'' = None"
    using x unfolding st extractExpiration_unfold by (auto split: if_splits)
next
  assume a: "parse_try zone data [''raw'' \<mapsto> data] = Inl (e, partial)"
  then have g: "extractGTIN data ([''raw'' \<mapsto> data], 0) = Inl (e, partial)"
    by (simp add: parse_try_def split: sum.splits)
  show "parseGS1DataMatrix zone data = (Return partial, [e])"
    by (simp add: parse_unfold g)
  have w: "substring data 2 16 = take 14 (drop 2 data)"
    by (rule substring_gtin)
  show "e = Error ''Invalid GTIN format. Expected 14 digits.''"
    using g unfolding extractGTIN_unfold
    by (auto simp: convertGTINtoNDC_def Let_def split: if_splits sum.splits)
  show "partial = [''raw'' \<mapsto> data, ''gtin'' \<mapsto> substring data 2 16]"
    using g unfolding extractGTIN_unfold w
    by (auto split: if_splits sum.splits)
next
  assume "length rest < 14"
  then show "parseGS1DataMatrix zone (js ''01'' @ rest)
          = (Return [''raw'' \<mapsto> js ''01'' @ rest, ''gtin'' \<mapsto> rest],
             [Error ''Invalid GTIN format. Expected 14 digits.''])"
    by (simp add: parse_unfold extractGTIN_unfold convert_fail js_simps)
qed

theorem parse_never_raises_witness:
  "length (js ''12345'') < 14
   \<and> parse_try utcZone (js ''01'' @ js ''12345'') [''raw'' \<mapsto> js ''01'' @ js ''12345'']
       = Inl (Error ''Invalid GTIN format. Expected 14 digits.'',
              [''raw'' \<mapsto> js ''01'' @ js ''12345'', ''gtin'' \<mapsto> js ''12345''])
   \<and> parseGS1DataMatrix utcZone (js ''01'' @ js ''12345'')
       = (Return [''raw'' \<mapsto> js ''01'' @ js ''12345'', ''gtin'' \<mapsto> js ''12345''],
          [Error ''Invalid GTIN format. Expected 14 digits.''])
   \<and> substring (js ''2150'') 0 2 \<noteq> js ''01''
   \<and> substring (js ''2150'') 0 (0 + 2) \<noteq> js ''17''
   \<and> substring (js ''2150'') 0 (0 + 2) \<noteq> js ''10''
   \<and> extractGTIN (js ''2150'') ([''raw'' \<mapsto> js ''2150''], 0) = Inr ([''raw'' \<mapsto> js ''2150''], 0)
   \<and> extractExpiration utcZone (js ''2150'') ([''raw'' \<mapsto> js ''2150''], 0) = ([''raw'' \<mapsto> js ''2150''], 0)
   \<and> parseGS1DataMatrix utcZone (js ''2150'') = (Return [''raw'' \<mapsto> js ''2150''], [])"
proof -
  have l: "length (js ''12345'') < 14" by (simp add: js_simps)
  have t: "parse_try utcZone (js ''01'' @ js ''12345'') [''raw'' \<mapsto> js ''01'' @ js ''12345'']
       = Inl (Error ''Invalid GTIN format. Expected 14 digits.'',
              [''raw'' \<mapsto> js ''01'' @ js ''12345'', ''gtin'' \<mapsto> js ''12345''])"
    by (simp add: parse_try_def extractGTIN_unfold convert_fail js_simps)
  have s: "substring (js ''2150'') 0 2 \<noteq> js ''01''"
    "substring (js ''2150'') 0 (0 + 2) \<noteq> js ''17''"
    "substring (js ''2150'') 0 (0 + 2) \<noteq> js ''10''"
    by (simp_all add: substring_def js_simps)
  have g: "extractGTIN (js ''2150'') ([''raw'' \<mapsto> js ''2150''], 0) = Inr ([''raw'' \<mapsto> js ''2150''], 0)"
    by (simp add: extractGTIN_unfold js_simps)
  have x: "extractExpiration utcZone (js ''2150'') ([''raw'' \<mapsto> js ''2150''], 0) = ([''raw'' \<mapsto> js ''2150''], 0)"
    by (simp add: extractExpiration_unfold js_simps)
  note A = parse_never_raises
    [where data = "js ''01'' @ js ''12345''" and zone = utcZone
       and e = "Error ''Invalid GTIN format. Expected 14 digits.''"
       and partial = "[''raw'' \<mapsto> js ''01'' @ js ''12345'', ''gtin'' \<mapsto> js ''12345'']"
       and rest = "js ''12345''"]
  note B = parse_never_raises
    [where data = "js ''2150''" and zone = utcZone and ?result1.0 = "[''raw'' \<mapsto> js ''2150'']"
       and ?pos1.0 = 0 and st = "([''raw'' \<mapsto> js ''2150''], 0)"
       and ?result2.0 = "[''raw'' \<mapsto> js ''2150'']" and ?pos2.0 = 0]
  have a: "parseGS1DataMatrix utcZone (js ''01'' @ js ''12345'')
       = (Return [''raw'' \<mapsto> js ''01'' @ js ''12345'', ''gtin'' \<mapsto> js ''12345''],
          [Error ''Invalid GTIN format. Expected 14 digits.''])"
    using A t by blast
  have b: "parseGS1DataMatrix utcZone (js ''2150'') = (Return [''raw'' \<mapsto> js ''2150''], [])"
    using B g x s by blast
  show ?thesis using l t s g x a b by blast
qed

lemma substring_numerals:
  "substring s 2 8 = take 6 (drop 2 s)"
  "substring s 16 18 = take 2 (drop 16 s)"
  "substring s 18 24 = take 6 (drop 18 s)"
  by (simp_all add: substring_take_drop)

lemma extractExpiration_at0:
  "extractExpiration zone data (result, 0) =
     (if take 2 data = js ''17'' then
        (result(''expirationDateRaw'' \<mapsto> take 6 (drop 2 data),
                ''expirationDate'' \<mapsto> formatExpirationDate zone (take 6 (drop 2 data))), 8)
      else (result, 0))"
  by (simp only: extractExpiration_unfold drop_0 arith_simps)

lemma extractExpiration_at16:
  "extractExpiration zone data (result, 16) =
     (if take 2 (drop 16 data) = js ''17'' then
        (result(''expirationDateRaw'' \<mapsto> take 6 (drop 18 data),
                ''expirationDate'' \<mapsto> formatExpirationDate zone (take 6 (drop 18 data))), 24)
      else (result, 16))"
  by (simp only: extractExpiration_unfold arith_simps)

lemma extractLot_other:
  "k \<noteq> ''lotNumber'' \<Longrightarrow> fst (extractLot data st) k = fst st k"
  by (cases st) (simp add: extractLot_unfold)

lemma parse_without_gtin:
  assumes "take 2 data \<noteq> js ''01''"
  shows "parseGS1DataMatrix zone data
     = (Return (fst (extractLot data (extractExpiration zone data ([''raw'' \<mapsto> data], 0)))), [])"
  using assms by (simp add: parse_unfold extractGTIN_unfold)

lemma parse_with_gtin:
  assumes "take 2 data = js ''01''" "16 \<le> length data"
  shows "parseGS1DataMatrix zone data
     = (Return (fst (extractLot data (extractExpiration zone data
          ([''raw'' \<mapsto> data, ''gtin'' \<mapsto> take 14 (drop 2 data),
            ''ndc'' \<mapsto> ndcText (take 14 (drop 2 data))], 16)))), [])"
proof -
  have "length (take 14 (drop 2 data)) = 14" using assms(2) by simp
  then show ?thesis
    using assms(1) by (simp add: parse_unfold extractGTIN_unfold convert_ok ndcText_def)
qed

lemma parse_short_gtin:
  assumes "take 2 data = js ''01''" "\<not> 16 \<le> length data"
  shows "parseGS1DataMatrix zone data
     = (Return [''raw'' \<mapsto> data, ''gtin'' \<mapsto> take 14 (drop 2 data)],
        [Error ''Invalid GTIN format. Expected 14 digits.''])"
proof -
  have "length (take 14 (drop 2 data)) \<noteq> 14" using assms(2) by simp
  then show ?thesis
    using assms(1) by (simp add: parse_unfold extractGTIN_unfold convert_fail)
qed

text \<open>
  Claim C5, which fails as stated: a payload with fewer than 14 characters after the
  leading AI 01 gets these characters recorded as gtin; the 14 characters recorded as
  gtin need not be digits; and a payload with fewer than 6 characters after the AI 17
  gets these characters recorded as expirationDateRaw (and as expirationDate).
\<close>

theorem fixed_length_fields_counterexample:
  "parseGS1DataMatrix utcZone (js ''0112345'')
     = (Return [''raw'' \<mapsto> js ''0112345'', ''gtin'' \<mapsto> js ''12345''],
        [Error ''Invalid GTIN format. Expected 14 digits.''])
   \<and> length (js ''12345'') \<noteq> 14
   \<and> parseGS1DataMatrix utcZone (js ''01ABCDEFGHIJKLMN'')
     = (Return [''raw'' \<mapsto> js ''01ABCDEFGHIJKLMN'', ''gtin'' \<mapsto> js ''ABCDEFGHIJKLMN'',
                ''ndc'' \<mapsto> js ''DEFGH-IJKL-MN''], [])
   \<and> \<not> list_all decimalDigit (js ''ABCDEFGHIJKLMN'')
   \<and> parseGS1DataMatrix utcZone (js ''17123'')
     = (Return [''raw'' \<mapsto> js ''17123'', ''expirationDateRaw'' \<mapsto> js ''123'',
                ''expirationDate'' \<mapsto> js ''123''], [])
   \<and> length (js ''123'') \<noteq> 6"
proof (intro conjI)
  show "parseGS1DataMatrix utcZone (js ''0112345'')
     = (Return [''raw'' \<mapsto> js ''0112345'', ''gtin'' \<mapsto> js ''12345''],
        [Error ''Invalid GTIN format. Expected 14 digits.''])"
    by (simp add: parse_unfold extractGTIN_unfold convert_fail js_simps)
  show "length (js ''12345'') \<noteq> 14" by (simp add: js_simps)
  show "parseGS1DataMatrix utcZone (js ''01ABCDEFGHIJKLMN'')
     = (Return [''raw'' \<mapsto> js ''01ABCDEFGHIJKLMN'', ''gtin'' \<mapsto> js ''ABCDEFGHIJKLMN'',
                ''ndc'' \<mapsto> js ''DEFGH-IJKL-MN''], [])"
    by (simp add: parse_unfold extractGTIN_unfold extractExpiration_unfold extractLot_unfold
        convert_ok js_simps)
  show "\<not> list_all decimalDigit (js ''ABCDEFGHIJKLMN'')"
    by (simp add: js_simps decimalDigit_def)
  show "parseGS1DataMatrix utcZone (js ''17123'')
     = (Return [''raw'' \<mapsto> js ''17123'', ''expirationDateRaw'' \<mapsto> js ''123'',
                ''expirationDate'' \<mapsto> js ''123''], [])"
    by (simp add: parse_unfold extractGTIN_unfold extractExpiration_unfold extractLot_unfold
        formatExpirationDate_def js_simps)
  show "length (js ''123'') \<noteq> 6" by (simp add: js_simps)
qed

text \<open>
  Claim C5 as amended. In every record returned by parseGS1DataMatrix the gtin field,
  whenever present, is the substring of at most 14 characters (of any kind, not only
  digits) that follows the leading AI 01, of exactly 14 characters when at least 14
  remain; expirationDateRaw, whenever present, is the substring of at most 6 characters
  that follows the AI 17 at the cursor (at the start of the payload, or after the AI 01
  and its 14 characters), of exactly 6 characters when at least 6 remain. When fewer
  characters remain than the fixed length of the field, the field is not skipped: the
  characters that remain are recorded as its value.
\<close>

theorem fixed_length_fields:
  "parseGS1DataMatrix zone data = (Return result, console) \<longrightarrow>
     (\<forall>g. result ''gtin'' = Some g \<longrightarrow>
        substring data 0 2 = js ''01'' \<and> g = substring data 2 16
        \<and> length g \<le> 14 \<and> (length g = 14 \<longleftrightarrow> 16 \<le> length data))
     \<and> (\<forall>x. result ''expirationDateRaw'' = Some x \<longrightarrow>
          (substring data 0 2 = js ''17'' \<and> x = substring data 2 8
             \<and> length x \<le> 6 \<and> (length x = 6 \<longleftrightarrow> 8 \<le> length data))
          \<or> (substring data 0 2 = js ''01'' \<and> substring data 16 18 = js ''17''
             \<and> x = substring data 18 24
             \<and> length x \<le> 6 \<and> (length x = 6 \<longleftrightarrow> 24 \<le> length data)))
     \<and> (substring data 0 2 = js ''01'' \<longrightarrow> result ''gtin'' = Some (substring data 2 16))
     \<and> (substring data 0 2 = js ''17'' \<longrightarrow>
          result ''expirationDateRaw'' = Some (substring data 2 8))
     \<and> (substring data 0 2 = js ''01'' \<and> 16 \<le> length data
          \<and> substring data 16 18 = js ''17'' \<longrightarrow>
          result ''expirationDateRaw'' = Some (substring data 18 24))"
proof (intro impI)
  assume r: "parseGS1DataMatrix zone data = (Return result, console)"
  have n: "js ''17'' \<noteq> js ''01''" by (simp add: js_simps)
  have fields: "result ''gtin'' = (if take 2 data = js ''01'' then Some (take 14 (drop 2 data)) else None)
    \<and> result ''expirationDateRaw''
        = (if take 2 data = js ''01''
           then (if 16 \<le> length data \<and> take 2 (drop 16 data) = js ''17''
                 then Some (take 6 (drop 18 data)) else None)
           else (if take 2 data = js ''17'' then Some (take 6 (drop 2 data)) else None))"
  proof (cases "take 2 data = js ''01''")
    case False
    have "result = fst (extractLot data (extractExpiration zone data ([''raw'' \<mapsto> data], 0)))"
      using r unfolding parse_without_gtin [OF False] by simp
    then show ?thesis
      using False by (simp add: extractExpiration_at0 extractLot_other)
  next
    case p: True
    show ?thesis
    proof (cases "16 \<le> length data")
      case True
      have "result = fst (extractLot data (extractExpiration zone data
          ([''raw'' \<mapsto> data, ''gtin'' \<mapsto> take 14 (drop 2 data),
            ''ndc'' \<mapsto> ndcText (take 14 (drop 2 data))], 16)))"
        using r unfolding parse_with_gtin [OF p True] by simp
      then show ?thesis
        using p True by (simp add: extractExpiration_at16 extractLot_other)
    next
      case False
      have "result = [''raw'' \<mapsto> data, ''gtin'' \<mapsto> take 14 (drop 2 data)]"
        using r unfolding parse_short_gtin [OF p False] by simp
      then show ?thesis
        using p False by simp
    qed
  qed
  show "(\<forall>g. result ''gtin'' = Some g \<longrightarrow>
        substring data 0 2 = js ''01'' \<and> g = substring data 2 16
        \<and> length g \<le> 14 \<and> (length g = 14 \<longleftrightarrow> 16 \<le> length data))
     \<and> (\<forall>x. result ''expirationDateRaw'' = Some x \<longrightarrow>
          (substring data 0 2 = js ''17'' \<and> x = substring data 2 8
             \<and> length x \<le> 6 \<and> (length x = 6 \<longleftrightarrow> 8 \<le> length data))
          \<or> (substring data 0 2 = js ''01'' \<and> substring data 16 18 = js ''17''
             \<and> x = substring data 18 24
             \<and> length x \<le> 6 \<and> (length x = 6 \<longleftrightarrow> 24 \<le> length data)))
     \<and> (substring data 0 2 = js ''01'' \<longrightarrow> result ''gtin'' = Some (substring data 2 16))
     \<and> (substring data 0 2 = js ''17'' \<longrightarrow>
          result ''expirationDateRaw'' = Some (substring data 2 8))
     \<and> (substring data 0 2 = js ''01'' \<and> 16 \<le> length data
          \<and> substring data 16 18 = js ''17'' \<longrightarrow>
          result ''expirationDateRaw'' = Some (substring data 18 24))"
    unfolding substring_peek0 substring_gtin substring_numerals
    using fields n by (auto split: if_splits)
qed

theorem fixed_length_fields_witness:
  "parseGS1DataMatrix utcZone (js ''01'' @ js ''00349281589058'' @ js ''17'' @ js ''131028'')
     = (Return [''raw'' \<mapsto> js ''01'' @ js ''00349281589058'' @ js ''17'' @ js ''131028'',
                ''gtin'' \<mapsto> js ''00349281589058'',
                ''ndc'' \<mapsto> ndcText (js ''00349281589058''),
                ''expirationDateRaw'' \<mapsto> js ''131028'',
                ''expirationDate'' \<mapsto> formatExpirationDate utcZone (js ''131028'')], [])
   \<and> substring (js ''01'' @ js ''00349281589058'' @ js ''17'' @ js ''131028'') 0 2 = js ''01''
   \<and> js ''00349281589058''
       = substring (js ''01'' @ js ''00349281589058'' @ js ''17'' @ js ''131028'') 2 16
   \<and> length (js ''00349281589058'') = 14
   \<and> substring (js ''01'' @ js ''00349281589058'' @ js ''17'' @ js ''131028'') 16 18 = js ''17''
   \<and> js ''131028''
       = substring (js ''01'' @ js ''00349281589058'' @ js ''17'' @ js ''131028'') 18 24
   \<and> length (js ''131028'') = 6"
proof -
  define data where "data = js ''01'' @ js ''00349281589058'' @ js ''17'' @ js ''131028''"
  define result where "result =
     [''raw'' \<mapsto> data, ''gtin'' \<mapsto> js ''00349281589058'',
      ''ndc'' \<mapsto> ndcText (js ''00349281589058''),
      ''expirationDateRaw'' \<mapsto> js ''131028'',
      ''expirationDate'' \<mapsto> formatExpirationDate utcZone (js ''131028'')]"
  have p: "parseGS1DataMatrix utcZone data = (Return result, [])"
    unfolding data_def result_def
    by (simp add: parse_unfold extractGTIN_unfold extractExpiration_unfold extractLot_unfold
        convert_ok ndcText_def js_simps)
  have g: "result ''gtin'' = Some (js ''00349281589058'')"
    and x: "result ''expirationDateRaw'' = Some (js ''131028'')"
    by (simp_all add: result_def)
  have l: "length (js ''00349281589058'') = 14" "length (js ''131028'') = 6"
    "16 \<le> length data"
    by (simp_all add: js_simps data_def)
  have s: "substring data 0 2 = js ''01''" "substring data 16 18 = js ''17''"
    by (simp_all add: data_def substring_def js_simps)
  note T = fixed_length_fields [where zone = utcZone and data = data and result = result
      and console = "[]", THEN mp, OF p]
  have a: "js ''00349281589058'' = substring data 2 16"
    using T g by blast
  have "result ''expirationDateRaw'' = Some (substring data 18 24)"
    using T s l(3) by blast
  then have b: "js ''131028'' = substring data 18 24" using x by simp
  show ?thesis
    using p s a b l unfolding data_def result_def by (intro conjI)
qed

section \<open>Properties of the decode pipeline\<close>

lemma first_of_filter:
  "(case filter P xs of [] \<Rightarrow> None | r # rs \<Rightarrow> Some (f r)) = map_option f (find P xs)"
  by (induction xs) simp_all

lemma firstIfValid_accepted:
  "firstIfValid results = accepted Standard results"
  "firstIfValid results = accepted Enhanced results"
  by (cases results; simp add: firstIfValid_def)+

lemma firstValid_accepted:
  "firstValid results = accepted (Rotated angle) results"
  "firstValid results = accepted Original results"
  by (simp_all add: firstValid_def first_of_filter)

lemma preprocessAndRead_runAttempt:
  "preprocessAndRead env standardRecipe trace = runAttempt env Standard trace"
  "preprocessAndRead env enhancedRecipe trace = runAttempt env Enhanced trace"
  "preprocessAndRead env (rotatedRecipe angle) trace = runAttempt env (Rotated angle) trace"
  by (simp_all add: preprocessAndRead_def runAttempt_def standardRecipe_def enhancedRecipe_def
      rotatedRecipe_def dmOptions_def split: sum.splits)

lemma readOriginal_runAttempt:
  "readOriginal env trace = runAttempt env Original trace"
  by (simp add: readOriginal_def runAttempt_def split: sum.splits)

lemma runAttempt_trace:
  "runAttempt env a trace = (trace @ attemptCalls env a, snd (runAttempt env a []))"
  by (simp add: runAttempt_def attemptCalls_def split: prod.splits sum.splits)

lemma runAttempts_step:
  "runAttempts env (a # as) trace =
     (case runAttempt env a trace of
        (trace1, Inl e) \<Rightarrow> (trace1, Thrown e)
      | (trace1, Inr results) \<Rightarrow>
          (case accepted a results of
             Some t \<Rightarrow> (trace1, Printed t)
           | None \<Rightarrow> runAttempts env as trace1))"
  by (simp add: runAttempt_trace [of env a trace] attemptOutcome_def
      split: sum.splits option.splits)

lemma rotationLoop_runAttempts:
  "rotationLoop env angles trace =
     (case runAttempts env (map Rotated angles) trace of
        (trace1, DecodeFailed) \<Rightarrow> (trace1, Fallthrough)
      | ended \<Rightarrow> ended)"
proof (induction angles arbitrary: trace)
  case Nil
  show ?case by simp
next
  case (Cons angle angles)
  show ?case
    by (simp add: runAttempts_step Cons.IH preprocessAndRead_runAttempt
        firstValid_accepted(1) [where angle = angle] del: runAttempts.simps
        split: prod.splits sum.splits option.splits)
qed

lemma runAttempts_append:
  "runAttempts env (as @ bs) trace =
     (case runAttempts env as trace of
        (trace1, DecodeFailed) \<Rightarrow> runAttempts env bs trace1
      | ended \<Rightarrow> ended)"
proof (induction as arbitrary: trace)
  case Nil
  show ?case by simp
next
  case (Cons a as)
  show ?case
    by (simp add: Cons.IH split: outcome.splits)
qed

lemma runAttempts_flow:
  "snd (runAttempts env as trace) \<noteq> Fallthrough"
  by (induction as arbitrary: trace) (simp_all split: outcome.splits)

lemma tryBlock_runAttempts: "tryBlock env = runAttempts env attemptOrder []"
proof -
  have split: "attemptOrder = [Standard, Enhanced] @ map Rotated [90, 180, 270] @ [Original]"
    by (simp add: attemptOrder_def)
  have nf: "\<And>tr tr'. runAttempts env (map Rotated [90, 180, 270]) tr \<noteq> (tr', Fallthrough)"
    using runAttempts_flow [of env "map Rotated [90, 180, 270]"] by (metis snd_conv)
  show ?thesis
    unfolding split tryBlock_def
    apply (simp only: append.simps runAttempts_step)
    apply (simp only: runAttempts_append rotationLoop_runAttempts runAttempts_step
        runAttempts.simps(1))
    apply (simp only: preprocessAndRead_runAttempt [symmetric] readOriginal_runAttempt [symmetric]
        firstIfValid_accepted [symmetric] firstValid_accepted(2) [symmetric])
    using nf
    apply (auto split: prod.splits sum.splits option.splits flow.splits)
    done
qed

lemma runAttempts_prefix:
  "\<forall>a \<in> set pre. attemptOutcome env a = NoResult \<Longrightarrow>
   runAttempts env (pre @ rest) trace
     = runAttempts env rest (trace @ concat (map (attemptCalls env) pre))"
  by (induction pre arbitrary: trace) simp_all

lemma runAttempts_at:
  assumes i: "i < length as"
    and before: "\<forall>j<i. attemptOutcome env (as ! j) = NoResult"
  shows "runAttempts env as []
     = runAttempts env (as ! i # drop (Suc i) as) (concat (map (attemptCalls env) (take i as)))"
proof -
  have "\<forall>a \<in> set (take i as). attemptOutcome env a = NoResult"
    using i before by (auto simp: in_set_conv_nth)
  then have "runAttempts env (take i as @ (as ! i # drop (Suc i) as)) []
     = runAttempts env (as ! i # drop (Suc i) as) ([] @ concat (map (attemptCalls env) (take i as)))"
    by (rule runAttempts_prefix)
  then show ?thesis using i by (simp add: id_take_nth_drop [symmetric])
qed

lemma calls_upto:
  "i < length as \<Longrightarrow>
   concat (map f (take i as)) @ f (as ! i) = concat (map f (take (Suc i) as))"
  by (simp add: take_Suc_conv_app_nth)

lemmas example_defs =
  attemptOutcome_def attemptCalls_def runAttempt_def preprocessAndRead_def readOriginal_def
  bufferOf_def standardRecipe_def enhancedRecipe_def rotatedRecipe_def dmOptions_def
  firstIfValid_def firstValid_def

lemma all_less_3: "(\<forall>j<3. P j) \<longleftrightarrow> P (0::nat) \<and> P 1 \<and> P 2"
  by (auto simp: less_Suc_eq eval_nat_numeral)

lemma all_less_5: "(\<forall>j<5. P j) \<longleftrightarrow> P (0::nat) \<and> P 1 \<and> P 2 \<and> P 3 \<and> P 4"
  by (auto simp: less_Suc_eq eval_nat_numeral)

text \<open>
  Claim C1, which fails as stated, in two ways. For the upside-down image the decode
  capability returns, in strategy 1, an invalid result followed by the valid decode
  \<open>B\<close>: strategy 1 is the first to yield a valid decode, but the script looks at the
  first result only and goes on, and the run prints the text of strategy 3. For the
  image on which the decode engine throws in strategy 1, strategy 2 is the first to
  yield a valid decode, but the run ends in the handler of the error and prints
  nothing.
\<close>

theorem first_valid_strategy_wins_counterexample:
  "sharp_toBuffer upsideDownImage standardRecipe = Inr [1]
   \<and> readBarcodes upsideDownImage [1] (Some dmOptions)
       = Inr [\<lparr>text' = js ''A'', isValid = False\<rparr>, \<lparr>text' = js ''B'', isValid = True\<rparr>]
   \<and> stdout (decode_dm upsideDownImage) = [js ''0100349281589058'']
   \<and> js ''0100349281589058'' \<noteq> js ''B''
   \<and> sharp_toBuffer engineFailure standardRecipe = Inr [1]
   \<and> readBarcodes engineFailure [1] (Some dmOptions) = Inl (Error ''decoder crashed'')
   \<and> sharp_toBuffer engineFailure enhancedRecipe = Inr [2]
   \<and> readBarcodes engineFailure [2] (Some dmOptions)
       = Inr [\<lparr>text' = js ''0100349281589058'', isValid = True\<rparr>]
   \<and> stdout (decode_dm engineFailure) = []
   \<and> stderr (decode_dm engineFailure) = [js ''Processing error: decoder crashed'']
   \<and> exit_code (decode_dm engineFailure) = 2"
  by (simp add: decode_dm_def tryBlock_def upsideDownImage_def engineFailure_def
      preprocessAndRead_def readOriginal_def bufferOf_def standardRecipe_def enhancedRecipe_def
      rotatedRecipe_def firstIfValid_def firstValid_def js_simps)

text \<open>
  Claim C1 as amended. The script makes its attempts in the fixed order standard recipe
  (strategy 1), enhanced recipe (strategy 2), standard recipe rotated by 90, 180 and 270
  degrees (strategy 3), original bytes (strategy 4). Strategies 1 and 2 accept the first
  result the decode capability returns, when it is marked valid; strategies 3 and 4
  accept the first result that is marked valid. Whenever every attempt before the
  \<open>i\<close>-th has returned, without raising, results that are not accepted, and the
  \<open>i\<close>-th returns results of which the text \<open>t\<close> is accepted, the run prints exactly
  \<open>t\<close>, exits with code 0, and has made the capability calls of the attempts up to the
  \<open>i\<close>-th only: no later attempt is evaluated. In particular, when the filter chain of
  the standard recipe gives a buffer and the decode capability returns for it a list
  whose first result is valid, the run makes these two calls and prints the text of that
  result.
\<close>

theorem first_valid_strategy_wins:
  "map strategyOf attemptOrder = [1, 2, 3, 3, 3, 4]
   \<and> (i < length attemptOrder
        \<and> (\<forall>j<i. attemptOutcome env (attemptOrder ! j) = NoResult)
        \<and> attemptOutcome env (attemptOrder ! i) = Yields t \<longrightarrow>
      decode_dm env
        = \<lparr>calls = concat (map (attemptCalls env) (take (Suc i) attemptOrder)),
           stdout = [t], stderr = [], exit_code = 0\<rparr>)
   \<and> (sharp_toBuffer env [Median 3, Linear (16 / 10) (- 30), Sharpen, Png] = Inr buf
        \<and> readBarcodes env buf
             (Some \<lparr>formats = [''DataMatrix''], tryHarder = True, maxNumberOfSymbols = 10\<rparr>)
           = Inr (r # rs)
        \<and> isValid r \<longrightarrow>
      decode_dm env
        = \<lparr>calls = [SharpCall [Median 3, Linear (16 / 10) (- 30), Sharpen, Png],
                    ReadBarcodesCall buf
                      (Some \<lparr>formats = [''DataMatrix''], tryHarder = True,
                              maxNumberOfSymbols = 10\<rparr>)],
           stdout = [text' r], stderr = [], exit_code = 0\<rparr>)"
proof (intro conjI impI)
  show "map strategyOf attemptOrder = [1, 2, 3, 3, 3, 4]" by (simp add: attemptOrder_def)
next
  assume a: "i < length attemptOrder
        \<and> (\<forall>j<i. attemptOutcome env (attemptOrder ! j) = NoResult)
        \<and> attemptOutcome env (attemptOrder ! i) = Yields t"
  then have i: "i < length attemptOrder"
    and b: "\<forall>j<i. attemptOutcome env (attemptOrder ! j) = NoResult"
    and y: "attemptOutcome env (attemptOrder ! i) = Yields t" by simp_all
  have "tryBlock env
     = (concat (map (attemptCalls env) (take i attemptOrder)) @ attemptCalls env (attemptOrder ! i),
        Printed t)"
    unfolding tryBlock_runAttempts runAttempts_at [OF i b] by (simp add: y)
  then show "decode_dm env
        = \<lparr>calls = concat (map (attemptCalls env) (take (Suc i) attemptOrder)),
           stdout = [t], stderr = [], exit_code = 0\<rparr>"
    using a by (simp add: decode_dm_def calls_upto)
next
  assume a: "sharp_toBuffer env [Median 3, Linear (16 / 10) (- 30), Sharpen, Png] = Inr buf
        \<and> readBarcodes env buf
             (Some \<lparr>formats = [''DataMatrix''], tryHarder = True, maxNumberOfSymbols = 10\<rparr>)
           = Inr (r # rs)
        \<and> isValid r"
  then show "decode_dm env
        = \<lparr>calls = [SharpCall [Median 3, Linear (16 / 10) (- 30), Sharpen, Png],
                    ReadBarcodesCall buf
                      (Some \<lparr>formats = [''DataMatrix''], tryHarder = True,
                              maxNumberOfSymbols = 10\<rparr>)],
           stdout = [text' r], stderr = [], exit_code = 0\<rparr>"
    by (simp add: decode_dm_def tryBlock_def preprocessAndRead_def standardRecipe_def
        dmOptions_def firstIfValid_def)
qed

theorem first_valid_strategy_wins_witness:
  "(3::nat) < length attemptOrder
   \<and> attemptOutcome upsideDownImage (attemptOrder ! 0) = NoResult
   \<and> attemptOutcome upsideDownImage (attemptOrder ! 1) = NoResult
   \<and> attemptOutcome upsideDownImage (attemptOrder ! 2) = NoResult
   \<and> attemptOutcome upsideDownImage (attemptOrder ! 3) = Yields (js ''0100349281589058'')
   \<and> decode_dm upsideDownImage
       = \<lparr>calls = [SharpCall standardRecipe, ReadBarcodesCall [1] (Some dmOptions),
                   SharpCall enhancedRecipe, ReadBarcodesCall [2] (Some dmOptions),
                   SharpCall (rotatedRecipe 90), ReadBarcodesCall [3] (Some dmOptions),
                   SharpCall (rotatedRecipe 180), ReadBarcodesCall [4] (Some dmOptions)],
          stdout = [js ''0100349281589058''], stderr = [], exit_code = 0\<rparr>
   \<and> sharp_toBuffer clearImage [Median 3, Linear (16 / 10) (- 30), Sharpen, Png] = Inr [1]
   \<and> readBarcodes clearImage [1]
        (Some \<lparr>formats = [''DataMatrix''], tryHarder = True, maxNumberOfSymbols = 10\<rparr>)
      = Inr [\<lparr>text' = js ''0100349281589058'', isValid = True\<rparr>]
   \<and> decode_dm clearImage
       = \<lparr>calls = [SharpCall standardRecipe, ReadBarcodesCall [1] (Some dmOptions)],
          stdout = [js ''0100349281589058''], stderr = [], exit_code = 0\<rparr>
   \<and> attemptOutcome rawOnlyImage (attemptOrder ! 0) = NoResult
   \<and> attemptOutcome rawOnlyImage (attemptOrder ! 1) = NoResult
   \<and> attemptOutcome rawOnlyImage (attemptOrder ! 2) = NoResult
   \<and> attemptOutcome rawOnlyImage (attemptOrder ! 3) = NoResult
   \<and> attemptOutcome rawOnlyImage (attemptOrder ! 4) = NoResult
   \<and> attemptOutcome rawOnlyImage (attemptOrder ! 5) = Yields (js ''0100349281589058'')
   \<and> decode_dm rawOnlyImage
       = \<lparr>calls = [SharpCall standardRecipe, ReadBarcodesCall [1] (Some dmOptions),
                   SharpCall enhancedRecipe, ReadBarcodesCall [2] (Some dmOptions),
                   SharpCall (rotatedRecipe 90), ReadBarcodesCall [3] (Some dmOptions),
                   SharpCall (rotatedRecipe 180), ReadBarcodesCall [4] (Some dmOptions),
                   SharpCall (rotatedRecipe 270), ReadBarcodesCall [5] (Some dmOptions),
                   ReadFileCall, ReadBarcodesCall [0] None],
          stdout = [js ''0100349281589058''], stderr = [], exit_code = 0\<rparr>"
proof -
  have n: "(3::nat) < length attemptOrder" by (simp add: attemptOrder_def)
  have o: "attemptOutcome upsideDownImage (attemptOrder ! 0) = NoResult"
    "attemptOutcome upsideDownImage (attemptOrder ! 1) = NoResult"
    "attemptOutcome upsideDownImage (attemptOrder ! 2) = NoResult"
    "attemptOutcome upsideDownImage (attemptOrder ! 3) = Yields (js ''0100349281589058'')"
    by (simp_all add: attemptOrder_def upsideDownImage_def example_defs)
  have b: "\<forall>j<3. attemptOutcome upsideDownImage (attemptOrder ! j) = NoResult"
    unfolding all_less_3 using o by simp
  have c: "concat (map (attemptCalls upsideDownImage) (take (Suc 3) attemptOrder))
      = [SharpCall standardRecipe, ReadBarcodesCall [1] (Some dmOptions),
                   SharpCall enhancedRecipe, ReadBarcodesCall [2] (Some dmOptions),
                   SharpCall (rotatedRecipe 90), ReadBarcodesCall [3] (Some dmOptions),
                   SharpCall (rotatedRecipe 180), ReadBarcodesCall [4] (Some dmOptions)]"
    by (simp add: attemptOrder_def upsideDownImage_def example_defs)
  note T = first_valid_strategy_wins [where i = 3 and env = upsideDownImage
      and t = "js ''0100349281589058''"]
  have "decode_dm upsideDownImage
        = \<lparr>calls = concat (map (attemptCalls upsideDownImage) (take (Suc 3) attemptOrder)),
           stdout = [js ''0100349281589058''], stderr = [], exit_code = 0\<rparr>"
    using T n b o(4) by blast
  then have u: "decode_dm upsideDownImage
       = \<lparr>calls = [SharpCall standardRecipe, ReadBarcodesCall [1] (Some dmOptions),
                   SharpCall enhancedRecipe, ReadBarcodesCall [2] (Some dmOptions),
                   SharpCall (rotatedRecipe 90), ReadBarcodesCall [3] (Some dmOptions),
                   SharpCall (rotatedRecipe 180), ReadBarcodesCall [4] (Some dmOptions)],
          stdout = [js ''0100349281589058''], stderr = [], exit_code = 0\<rparr>"
    unfolding c .
  have s: "sharp_toBuffer clearImage [Median 3, Linear (16 / 10) (- 30), Sharpen, Png] = Inr [1]"
    unfolding clearImage_def bufferOf_def standardRecipe_def by simp
  have r: "readBarcodes clearImage [1]
        (Some \<lparr>formats = [''DataMatrix''], tryHarder = True, maxNumberOfSymbols = 10\<rparr>)
      = Inr [\<lparr>text' = js ''0100349281589058'', isValid = True\<rparr>]"
    by (simp add: clearImage_def)
  note C = first_valid_strategy_wins [where env = clearImage and buf = "[1]"
      and r = "\<lparr>text' = js ''0100349281589058'', isValid = True\<rparr>" and rs = "[]"]
  have "decode_dm clearImage
        = \<lparr>calls = [SharpCall [Median 3, Linear (16 / 10) (- 30), Sharpen, Png],
                    ReadBarcodesCall [1]
                      (Some \<lparr>formats = [''DataMatrix''], tryHarder = True,
                              maxNumberOfSymbols = 10\<rparr>)],
           stdout = [text' \<lparr>text' = js ''0100349281589058'', isValid = True\<rparr>],
           stderr = [], exit_code = 0\<rparr>"
  proof (rule C [THEN conjunct2, THEN conjunct2, THEN mp])
    have i: "isValid \<lparr>text' = js ''0100349281589058'', isValid = True\<rparr>" by simp
    show "sharp_toBuffer clearImage [Median 3, Linear (16 / 10) (- 30), Sharpen, Png] = Inr [1]
        \<and> readBarcodes clearImage [1]
             (Some \<lparr>formats = [''DataMatrix''], tryHarder = True, maxNumberOfSymbols = 10\<rparr>)
           = Inr [\<lparr>text' = js ''0100349281589058'', isValid = True\<rparr>]
        \<and> isValid \<lparr>text' = js ''0100349281589058'', isValid = True\<rparr>"
      by (intro conjI s r i)
  qed
  then have v: "decode_dm clearImage
       = \<lparr>calls = [SharpCall standardRecipe, ReadBarcodesCall [1] (Some dmOptions)],
          stdout = [js ''0100349281589058''], stderr = [], exit_code = 0\<rparr>"
    by (simp add: standardRecipe_def dmOptions_def)
  have n5: "(5::nat) < length attemptOrder" by (simp add: attemptOrder_def)
  have o5: "attemptOutcome rawOnlyImage (attemptOrder ! 0) = NoResult"
    "attemptOutcome rawOnlyImage (attemptOrder ! 1) = NoResult"
    "attemptOutcome rawOnlyImage (attemptOrder ! 2) = NoResult"
    "attemptOutcome rawOnlyImage (attemptOrder ! 3) = NoResult"
    "attemptOutcome rawOnlyImage (attemptOrder ! 4) = NoResult"
    "attemptOutcome rawOnlyImage (attemptOrder ! 5) = Yields (js ''0100349281589058'')"
    by (simp_all add: attemptOrder_def rawOnlyImage_def example_defs)
  have b5: "\<forall>j<5. attemptOutcome rawOnlyImage (attemptOrder ! j) = NoResult"
    unfolding all_less_5 using o5 by simp
  have c5: "concat (map (attemptCalls rawOnlyImage) (take (Suc 5) attemptOrder))
      = [SharpCall standardRecipe, ReadBarcodesCall [1] (Some dmOptions),
                   SharpCall enhancedRecipe, ReadBarcodesCall [2] (Some dmOptions),
                   SharpCall (rotatedRecipe 90), ReadBarcodesCall [3] (Some dmOptions),
                   SharpCall (rotatedRecipe 180), ReadBarcodesCall [4] (Some dmOptions),
                   SharpCall (rotatedRecipe 270), ReadBarcodesCall [5] (Some dmOptions),
                   ReadFileCall, ReadBarcodesCall [0] None]"
    by (simp add: attemptOrder_def rawOnlyImage_def example_defs)
  note R = first_valid_strategy_wins [where i = 5 and env = rawOnlyImage
      and t = "js ''0100349281589058''"]
  have "decode_dm rawOnlyImage
        = \<lparr>calls = concat (map (attemptCalls rawOnlyImage) (take (Suc 5) attemptOrder)),
           stdout = [js ''0100349281589058''], stderr = [], exit_code = 0\<rparr>"
    using R n5 b5 o5(6) by blast
  then have w: "decode_dm rawOnlyImage
       = \<lparr>calls = [SharpCall standardRecipe, ReadBarcodesCall [1] (Some dmOptions),
                   SharpCall enhancedRecipe, ReadBarcodesCall [2] (Some dmOptions),
                   SharpCall (rotatedRecipe 90), ReadBarcodesCall [3] (Some dmOptions),
                   SharpCall (rotatedRecipe 180), ReadBarcodesCall [4] (Some dmOptions),
                   SharpCall (rotatedRecipe 270), ReadBarcodesCall [5] (Some dmOptions),
                   ReadFileCall, ReadBarcodesCall [0] None],
          stdout = [js ''0100349281589058''], stderr = [], exit_code = 0\<rparr>"
    unfolding c5 .
  show ?thesis by (intro conjI n o u s r v o5 w)
qed

text \<open>
  Claim C4, which fails as stated: when the decode engine throws in the first attempt,
  the error is not swallowed and the pipeline does not advance to the second strategy
  (which would have decoded the image); the run ends with the processing error.
\<close>

theorem attempt_error_swallowed_counterexample:
  "attemptOutcome engineFailure Standard = Raises (Error ''decoder crashed'')
   \<and> attemptOutcome engineFailure Enhanced = Yields (js ''0100349281589058'')
   \<and> decode_dm engineFailure
       = \<lparr>calls = [SharpCall standardRecipe, ReadBarcodesCall [1] (Some dmOptions)],
          stdout = [], stderr = [js ''Processing error: decoder crashed''], exit_code = 2\<rparr>"
  by (simp add: decode_dm_def tryBlock_def engineFailure_def example_defs)

text \<open>
  Claim C4 as amended. There is a single handler around the whole pipeline: when every
  attempt before the \<open>i\<close>-th has returned without a valid decode and the \<open>i\<close>-th
  raises (in the filter chain, in the decode engine, or in reading the original file),
  the run stops at once, evaluates no later attempt, prints the processing error with
  the message of the error and exits with code 2.
\<close>

theorem attempt_error_aborts:
  "i < length attemptOrder
     \<and> (\<forall>j<i. attemptOutcome env (attemptOrder ! j) = NoResult)
     \<and> attemptOutcome env (attemptOrder ! i) = Raises (Error message) \<longrightarrow>
   decode_dm env
     = \<lparr>calls = concat (map (attemptCalls env) (take (Suc i) attemptOrder)),
        stdout = [], stderr = [js (''Processing error: '' @ message)], exit_code = 2\<rparr>"
proof (intro impI)
  assume a: "i < length attemptOrder
     \<and> (\<forall>j<i. attemptOutcome env (attemptOrder ! j) = NoResult)
     \<and> attemptOutcome env (attemptOrder ! i) = Raises (Error message)"
  then have i: "i < length attemptOrder"
    and b: "\<forall>j<i. attemptOutcome env (attemptOrder ! j) = NoResult"
    and y: "attemptOutcome env (attemptOrder ! i) = Raises (Error message)" by simp_all
  have "tryBlock env
     = (concat (map (attemptCalls env) (take i attemptOrder)) @ attemptCalls env (attemptOrder ! i),
        Thrown (Error message))"
    unfolding tryBlock_runAttempts runAttempts_at [OF i b] by (simp add: y)
  then show "decode_dm env
     = \<lparr>calls = concat (map (attemptCalls env) (take (Suc i) attemptOrder)),
        stdout = [], stderr = [js (''Processing error: '' @ message)], exit_code = 2\<rparr>"
    using a by (simp add: decode_dm_def calls_upto)
qed

theorem attempt_error_aborts_witness:
  "(5::nat) < length attemptOrder
   \<and> attemptOutcome unreadableFile (attemptOrder ! 0) = NoResult
   \<and> attemptOutcome unreadableFile (attemptOrder ! 1) = NoResult
   \<and> attemptOutcome unreadableFile (attemptOrder ! 2) = NoResult
   \<and> attemptOutcome unreadableFile (attemptOrder ! 3) = NoResult
   \<and> attemptOutcome unreadableFile (attemptOrder ! 4) = NoResult
   \<and> attemptOutcome unreadableFile (attemptOrder ! 5) = Raises (Error ''EACCES: permission denied'')
   \<and> decode_dm unreadableFile
       = \<lparr>calls = [SharpCall standardRecipe, ReadBarcodesCall [1] (Some dmOptions),
                   SharpCall enhancedRecipe, ReadBarcodesCall [2] (Some dmOptions),
                   SharpCall (rotatedRecipe 90), ReadBarcodesCall [3] (Some dmOptions),
                   SharpCall (rotatedRecipe 180), ReadBarcodesCall [4] (Some dmOptions),
                   SharpCall (rotatedRecipe 270), ReadBarcodesCall [5] (Some dmOptions),
                   ReadFileCall],
          stdout = [], stderr = [js ''Processing error: EACCES: permission denied''],
          exit_code = 2\<rparr>"
proof -
  have n: "(5::nat) < length attemptOrder" by (simp add: attemptOrder_def)
  have o: "attemptOutcome unreadableFile (attemptOrder ! 0) = NoResult"
    "attemptOutcome unreadableFile (attemptOrder ! 1) = NoResult"
    "attemptOutcome unreadableFile (attemptOrder ! 2) = NoResult"
    "attemptOutcome unreadableFile (attemptOrder ! 3) = NoResult"
    "attemptOutcome unreadableFile (attemptOrder ! 4) = NoResult"
    "attemptOutcome unreadableFile (attemptOrder ! 5) = Raises (Error ''EACCES: permission denied'')"
    by (simp_all add: attemptOrder_def unreadableFile_def example_defs)
  have b: "\<forall>j<5. attemptOutcome unreadableFile (attemptOrder ! j) = NoResult"
    unfolding all_less_5 using o by simp
  have c: "concat (map (attemptCalls unreadableFile) (take (Suc 5) attemptOrder))
      = [SharpCall standardRecipe, ReadBarcodesCall [1] (Some dmOptions),
                   SharpCall enhancedRecipe, ReadBarcodesCall [2] (Some dmOptions),
                   SharpCall (rotatedRecipe 90), ReadBarcodesCall [3] (Some dmOptions),
                   SharpCall (rotatedRecipe 180), ReadBarcodesCall [4] (Some dmOptions),
                   SharpCall (rotatedRecipe 270), ReadBarcodesCall [5] (Some dmOptions),
                   ReadFileCall]"
    by (simp add: attemptOrder_def unreadableFile_def example_defs)
  from attempt_error_aborts [of 5 unreadableFile "''EACCES: permission denied''"] n b o(6)
  have "decode_dm unreadableFile
     = \<lparr>calls = concat (map (attemptCalls unreadableFile) (take (Suc 5) attemptOrder)),
        stdout = [], stderr = [js (''Processing error: '' @ ''EACCES: permission denied'')],
        exit_code = 2\<rparr>"
    by blast
  then show ?thesis using n o unfolding c by simp
qed

text \<open>
  Claim C8, which fails as stated: on the image for which the decode engine throws in
  the first attempt and no other attempt finds a symbol, no strategy yields a valid
  decode, but the run ends in the handler of the error: it prints the processing error
  and not \<open>Decode failed\<close>, and the original bytes are never read.
\<close>

theorem no_decode_reports_failure_counterexample:
  "attemptOutcome crashThenBlank Standard = Raises (Error ''decoder crashed'')
   \<and> attemptOutcome crashThenBlank Enhanced = NoResult
   \<and> attemptOutcome crashThenBlank (Rotated 90) = NoResult
   \<and> attemptOutcome crashThenBlank (Rotated 180) = NoResult
   \<and> attemptOutcome crashThenBlank (Rotated 270) = NoResult
   \<and> attemptOutcome crashThenBlank Original = NoResult
   \<and> decode_dm crashThenBlank
       = \<lparr>calls = [SharpCall standardRecipe, ReadBarcodesCall [1] (Some dmOptions)],
          stdout = [], stderr = [js ''Processing error: decoder crashed''], exit_code = 2\<rparr>
   \<and> ReadFileCall \<notin> set (calls (decode_dm crashThenBlank))
   \<and> stderr (decode_dm crashThenBlank) \<noteq> [js ''Decode failed'']"
proof -
  have d: "decode_dm crashThenBlank
       = \<lparr>calls = [SharpCall standardRecipe, ReadBarcodesCall [1] (Some dmOptions)],
          stdout = [], stderr = [js ''Processing error: decoder crashed''], exit_code = 2\<rparr>"
    by (simp add: decode_dm_def tryBlock_def crashThenBlank_def preprocessAndRead_def
        bufferOf_def)
  have o: "attemptOutcome crashThenBlank Standard = Raises (Error ''decoder crashed'')"
    "attemptOutcome crashThenBlank Enhanced = NoResult"
    "attemptOutcome crashThenBlank (Rotated 90) = NoResult"
    "attemptOutcome crashThenBlank (Rotated 180) = NoResult"
    "attemptOutcome crashThenBlank (Rotated 270) = NoResult"
    "attemptOutcome crashThenBlank Original = NoResult"
    by (simp_all add: crashThenBlank_def example_defs)
  have r: "ReadFileCall \<notin> set (calls (decode_dm crashThenBlank))"
    "stderr (decode_dm crashThenBlank) \<noteq> [js ''Decode failed'']"
    unfolding d by (simp_all add: js_simps)
  show ?thesis by (intro conjI o d r)
qed

text \<open>
  Claim C8 as amended. If every attempt returns, without raising, results that are not
  accepted, the run prints \<open>Decode failed\<close> on standard error and exits with code 2,
  after all attempts were made in order; the last one reads the original file and
  passes its bytes, without preprocessing and without options, to the decode
  capability.
\<close>

theorem no_decode_reports_failure:
  "(\<forall>a \<in> set attemptOrder. attemptOutcome env a = NoResult) \<longrightarrow>
   decode_dm env
     = \<lparr>calls = concat (map (attemptCalls env) attemptOrder),
        stdout = [], stderr = [js ''Decode failed''], exit_code = 2\<rparr>
   \<and> last attemptOrder = Original
   \<and> (\<exists>originalBuffer. readFile env = Inr originalBuffer
        \<and> last (calls (decode_dm env)) = ReadBarcodesCall originalBuffer None)"
proof (intro impI)
  assume a: "\<forall>a \<in> set attemptOrder. attemptOutcome env a = NoResult"
  have "runAttempts env (attemptOrder @ []) [] = runAttempts env [] ([] @ concat (map (attemptCalls env) attemptOrder))"
    using a by (rule runAttempts_prefix)
  then have t: "tryBlock env = (concat (map (attemptCalls env) attemptOrder), DecodeFailed)"
    by (simp add: tryBlock_runAttempts)
  have d: "decode_dm env
     = \<lparr>calls = concat (map (attemptCalls env) attemptOrder),
        stdout = [], stderr = [js ''Decode failed''], exit_code = 2\<rparr>"
    by (simp add: decode_dm_def t)
  have o: "attemptOutcome env Original = NoResult" using a by (simp add: attemptOrder_def)
  then obtain originalBuffer where b: "readFile env = Inr originalBuffer"
    by (cases "readFile env") (simp_all add: attemptOutcome_def runAttempt_def)
  have l: "last (calls (decode_dm env)) = ReadBarcodesCall originalBuffer None"
    by (simp add: d attemptOrder_def attemptCalls_def runAttempt_def b)
  show "decode_dm env
     = \<lparr>calls = concat (map (attemptCalls env) attemptOrder),
        stdout = [], stderr = [js ''Decode failed''], exit_code = 2\<rparr>
   \<and> last attemptOrder = Original
   \<and> (\<exists>originalBuffer. readFile env = Inr originalBuffer
        \<and> last (calls (decode_dm env)) = ReadBarcodesCall originalBuffer None)"
    using d b l by (simp add: attemptOrder_def)
qed

theorem no_decode_reports_failure_witness:
  "attemptOutcome blankImage Standard = NoResult
   \<and> attemptOutcome blankImage Enhanced = NoResult
   \<and> attemptOutcome blankImage (Rotated 90) = NoResult
   \<and> attemptOutcome blankImage (Rotated 180) = NoResult
   \<and> attemptOutcome blankImage (Rotated 270) = NoResult
   \<and> attemptOutcome blankImage Original = NoResult
   \<and> decode_dm blankImage
       = \<lparr>calls = [SharpCall standardRecipe, ReadBarcodesCall [1] (Some dmOptions),
                   SharpCall enhancedRecipe, ReadBarcodesCall [2] (Some dmOptions),
                   SharpCall (rotatedRecipe 90), ReadBarcodesCall [3] (Some dmOptions),
                   SharpCall (rotatedRecipe 180), ReadBarcodesCall [4] (Some dmOptions),
                   SharpCall (rotatedRecipe 270), ReadBarcodesCall [5] (Some dmOptions),
                   ReadFileCall, ReadBarcodesCall [0] None],
          stdout = [], stderr = [js ''Decode failed''], exit_code = 2\<rparr>"
proof -
  have a: "\<forall>a \<in> set attemptOrder. attemptOutcome blankImage a = NoResult"
    by (simp add: attemptOrder_def blankImage_def example_defs)
  have c: "concat (map (attemptCalls blankImage) attemptOrder)
      = [SharpCall standardRecipe, ReadBarcodesCall [1] (Some dmOptions),
                   SharpCall enhancedRecipe, ReadBarcodesCall [2] (Some dmOptions),
                   SharpCall (rotatedRecipe 90), ReadBarcodesCall [3] (Some dmOptions),
                   SharpCall (rotatedRecipe 180), ReadBarcodesCall [4] (Some dmOptions),
                   SharpCall (rotatedRecipe 270), ReadBarcodesCall [5] (Some dmOptions),
                   ReadFileCall, ReadBarcodesCall [0] None]"
    by (simp add: attemptOrder_def blankImage_def example_defs)
  from no_decode_reports_failure [of blankImage] a
  have "decode_dm blankImage
     = \<lparr>calls = concat (map (attemptCalls blankImage) attemptOrder),
        stdout = [], stderr = [js ''Decode failed''], exit_code = 2\<rparr>"
    by blast
  moreover have "attemptOutcome blankImage Standard = NoResult"
    "attemptOutcome blankImage Enhanced = NoResult"
    "attemptOutcome blankImage (Rotated 90) = NoResult"
    "attemptOutcome blankImage (Rotated 180) = NoResult"
    "attemptOutcome blankImage (Rotated 270) = NoResult"
    "attemptOutcome blankImage Original = NoResult"
    using a by (simp_all add: attemptOrder_def)
  ultimately show ?thesis unfolding c by blast
qed

end
